theory Spec2Isabelle
  imports Complex_Main
begin

section \<open>Strings\<close>

text \<open>
  A JavaScript string is a sequence of UTF-16 code units. The model uses \<^typ>\<open>string\<close>,
  one \<^typ>\<open>char\<close> per code unit, so it covers the strings all of whose code units are
  below 256 (Latin-1). On these, the curly quotes U+201C and U+201D of the source's quote
  classes cannot occur, and the white space of \<open>\s\<close> and \<open>trim()\<close> is the set listed in
  \<open>isSpace\<close>.
\<close>

definition isSpace :: "char \<Rightarrow> bool" where
  "isSpace c = (c \<in> set [CHR 0x09, CHR 0x0A, CHR 0x0B, CHR 0x0C, CHR 0x0D, CHR 0x20, CHR 0xA0])"

definition isDigit :: "char \<Rightarrow> bool" where
  "isDigit c = (let n = (of_char c :: nat) in 48 \<le> n \<and> n \<le> 57)"

definition isLowerAz :: "char \<Rightarrow> bool" where
  "isLowerAz c = (let n = (of_char c :: nat) in 97 \<le> n \<and> n \<le> 122)"

definition isUpper :: "char \<Rightarrow> bool" where
  "isUpper c = (let n = (of_char c :: nat) in
     (65 \<le> n \<and> n \<le> 90) \<or> (192 \<le> n \<and> n \<le> 222 \<and> n \<noteq> 215))"

definition isQuote :: "char \<Rightarrow> bool" where
  "isQuote c = (c = CHR 0x22 \<or> c = CHR 0x27)"

definition toLowerChar :: "char \<Rightarrow> char" where
  "toLowerChar c = (if isUpper c then char_of (of_char c + (32::nat)) else c)"

definition toLowerCase :: "string \<Rightarrow> string" where
  "toLowerCase s = map toLowerChar s"

definition trim :: "string \<Rightarrow> string" where
  "trim s = rev (dropWhile isSpace (rev (dropWhile isSpace s)))"

text \<open>\<open>s.startsWith(p)\<close>; with \<open>ci\<close> the comparison ignores case, as under the flag \<open>/i\<close>.\<close>

fun startsWith :: "bool \<Rightarrow> string \<Rightarrow> string \<Rightarrow> bool" where
  "startsWith ci s [] = True"
| "startsWith ci [] (p # ps) = False"
| "startsWith ci (c # cs) (p # ps) =
     ((if ci then toLowerChar c = toLowerChar p else c = p) \<and> startsWith ci cs ps)"

text \<open>\<open>s.includes(p)\<close>\<close>

fun includes_str :: "string \<Rightarrow> string \<Rightarrow> bool" where
  "includes_str [] p = (p = [])"
| "includes_str (c # cs) p = (startsWith False (c # cs) p \<or> includes_str cs p)"

text \<open>\<open>s.split(sep)\<close>; \<open>cur\<close> is the piece being read.\<close>

function splitFrom :: "string \<Rightarrow> string \<Rightarrow> string \<Rightarrow> string list" where
  "splitFrom sep cur [] = [cur]"
| "splitFrom sep cur (c # cs) =
     (if sep \<noteq> [] \<and> startsWith False (c # cs) sep
      then cur # splitFrom sep [] (drop (length sep) (c # cs))
      else splitFrom sep (cur @ [c]) cs)"
  by pat_completeness auto
termination
  by (relation "measure (\<lambda>(sep, cur, s). length s)") auto

definition split :: "string \<Rightarrow> string \<Rightarrow> string list" where
  "split s sep = (if sep = [] then map (\<lambda>c. [c]) s else splitFrom sep [] s)"

text \<open>\<open>.replace(/[^a-z0-9]+/g, " ")\<close>: each maximal run of other characters becomes one
  space; \<open>inRun\<close> says that the run's space is already written.\<close>

fun replaceNonAlnumRuns :: "bool \<Rightarrow> string \<Rightarrow> string" where
  "replaceNonAlnumRuns inRun [] = []"
| "replaceNonAlnumRuns inRun (c # cs) =
     (if isLowerAz c \<or> isDigit c then c # replaceNonAlnumRuns False cs
      else if inRun then replaceNonAlnumRuns True cs
      else CHR '' '' # replaceNonAlnumRuns True cs)"

definition normalize :: "string \<Rightarrow> string" where
  "normalize text = trim (replaceNonAlnumRuns False (toLowerCase text))"

text \<open>Array.from(new Set(xs)): the first occurrence of each value, in order.\<close>

fun uniq :: "'a list \<Rightarrow> 'a list" where
  "uniq [] = []"
| "uniq (x # xs) = x # uniq (filter (\<lambda>y. y \<noteq> x) xs)"

text \<open>A string as a condition: the empty string and undefined are falsy.\<close>

fun truthy :: "string option \<Rightarrow> bool" where
  "truthy None = False"
| "truthy (Some s) = (s \<noteq> [])"

text \<open>\<open>a || b\<close> on strings that may be undefined.\<close>

definition orElse :: "string option \<Rightarrow> string option \<Rightarrow> string option" where
  "orElse a b = (if truthy a then a else b)"

text \<open>\<open>xs[i]\<close>: undefined out of range.\<close>

definition item_at :: "'a list \<Rightarrow> int \<Rightarrow> 'a option" where
  "item_at xs i = (if 0 \<le> i \<and> nat i < length xs then Some (xs ! nat i) else None)"

text \<open>
  A number that is an integer or infinite: what \<open>Number.parseInt\<close> gives on a string of
  digits. The value is a double, so an integer of more than 53 bits is rounded to the
  nearest integer with 53 significant bits (a tie goes to the even one), and from
  2 ^ 1024 on the result is \<open>Infinity\<close>.
\<close>

datatype number = Finite int | Infinity

text \<open>The number of bits of a natural number, given as an integer.\<close>

function bitLength :: "int \<Rightarrow> nat" where
  "bitLength n = (if n \<le> 0 then 0 else Suc (bitLength (n div 2)))"
  by pat_completeness auto
termination
  by (relation "measure nat") auto

definition toDouble :: "int \<Rightarrow> number" where
  "toDouble n =
     (if bitLength n \<le> 53 then Finite n
      else let e = bitLength n - 53;
               q = n div 2 ^ e;
               r = n mod 2 ^ e;
               half = 2 ^ (e - 1);
               q' = (if r > half \<or> (r = half \<and> odd q) then q + 1 else q)
           in if q' * 2 ^ e \<ge> 2 ^ 1024 then Infinity else Finite (q' * 2 ^ e))"

definition digitValue :: "char \<Rightarrow> int" where
  "digitValue c = of_char c - 48"

text \<open>\<open>Number.parseInt(s, 10)\<close> on a string that starts with digits.\<close>

definition parseInt :: "string \<Rightarrow> number" where
  "parseInt s = toDouble (foldl (\<lambda>acc c. acc * 10 + digitValue c) 0 (takeWhile isDigit s))"

section \<open>Regular expressions\<close>

text \<open>
  The patterns of the source are built from literals, alternation, sequence, an optional
  part, one capturing group, and a greedy repetition of a character class. \<open>matchHere\<close>
  lists the matches that start at the head of the input in the order in which a
  backtracking matcher finds them (left alternative first, longest repetition first), each
  as the rest of the input and the text of group 1; the first is the match JavaScript
  reports.
\<close>

datatype cclass = WhiteSpace | Digit | NotQuote | LowerAlnumSpace

fun inClass :: "cclass \<Rightarrow> char \<Rightarrow> bool" where
  "inClass WhiteSpace c = isSpace c"
| "inClass Digit c = isDigit c"
| "inClass NotQuote c = (\<not> isQuote c)"
| "inClass LowerAlnumSpace c = (isLowerAz c \<or> isDigit c \<or> c = CHR '' '')"

datatype rx =
    Lit string
  | OneOf "string list"
  | Many cclass nat
  | Seq rx rx
  | Alt rx rx
  | Opt rx
  | Group rx

type_synonym mres = "string \<times> string option"

fun matchHere :: "bool \<Rightarrow> rx \<Rightarrow> string \<Rightarrow> mres list" where
  "matchHere ci (Lit l) s = (if startsWith ci s l then [(drop (length l) s, None)] else [])"
| "matchHere ci (OneOf ls) s =
     map (\<lambda>l. (drop (length l) s, None)) (filter (startsWith ci s) ls)"
| "matchHere ci (Many k n) s =
     map (\<lambda>j. (drop j s, None)) (rev [n ..< Suc (length (takeWhile (inClass k) s))])"
| "matchHere ci (Seq a b) s =
     concat (map (\<lambda>(s1, c1).
                map (\<lambda>(s2, c2). (s2, if c2 = None then c1 else c2)) (matchHere ci b s1))
             (matchHere ci a s))"
| "matchHere ci (Alt a b) s = matchHere ci a s @ matchHere ci b s"
| "matchHere ci (Opt a) s = matchHere ci a s @ [(s, None)]"
| "matchHere ci (Group a) s =
     map (\<lambda>(s1, c1). (s1, Some (take (length s - length s1) s))) (matchHere ci a s)"

fun cat :: "rx list \<Rightarrow> rx" where
  "cat [] = Lit []"
| "cat [r] = r"
| "cat (r # rs) = Seq r (cat rs)"

text \<open>The leftmost match: \<open>regex.exec(s)\<close> without the flag \<open>/g\<close>, \<open>s.match(regex)\<close>.\<close>

fun search :: "bool \<Rightarrow> rx \<Rightarrow> string \<Rightarrow> mres option" where
  "search ci r [] = (case matchHere ci r [] of [] \<Rightarrow> None | m # _ \<Rightarrow> Some m)"
| "search ci r (c # cs) =
     (case matchHere ci r (c # cs) of [] \<Rightarrow> search ci r cs | m # _ \<Rightarrow> Some m)"

definition test :: "bool \<Rightarrow> rx \<Rightarrow> string \<Rightarrow> bool" where
  "test ci r s = (search ci r s \<noteq> None)"

text \<open>\<open>s.match(regex)?.[1]\<close>\<close>

definition group1 :: "bool \<Rightarrow> rx \<Rightarrow> string \<Rightarrow> string option" where
  "group1 ci r s = (case search ci r s of None \<Rightarrow> None | Some (rest, cap) \<Rightarrow> cap)"

text \<open>
  The loop \<open>while ((m = regex.exec(s)) !== null)\<close> of a pattern with the flag \<open>/g\<close>:
  group 1 of each match, every search starting where the last match ended. A match that
  consumes nothing would leave the source's loop where it is; \<open>quotePattern\<close>, the one
  pattern run this way, consumes at least four characters (\<open>quotePattern_consumes\<close>).
\<close>

function execAll :: "rx \<Rightarrow> string \<Rightarrow> string option list" where
  "execAll r [] = []"
| "execAll r (c # cs) =
     (case matchHere False r (c # cs) of
        [] \<Rightarrow> execAll r cs
      | (rest, cap) # _ \<Rightarrow>
          if length rest < length (c # cs) then cap # execAll r rest else [])"
  by pat_completeness auto
termination
  by (relation "measure (\<lambda>(r, s). length s)") auto

text \<open>The least number of characters a match of a pattern consumes.\<close>

fun minLen :: "rx \<Rightarrow> nat" where
  "minLen (Lit l) = length l"
| "minLen (OneOf ls) = (if ls = [] then 0 else Min (length ` set ls))"
| "minLen (Many k n) = n"
| "minLen (Seq a b) = minLen a + minLen b"
| "minLen (Alt a b) = min (minLen a) (minLen b)"
| "minLen (Opt a) = 0"
| "minLen (Group a) = minLen a"

section \<open>The attention-check parser\<close>

record directive =
  labelTargets :: "string list"
  indexTargets :: "int list"
  preferredKeywords :: "string list"
  typedValue :: "string option"

definition numberWords :: "(string \<times> int) list" where
  "numberWords =
     [(''one'', 1), (''two'', 2), (''three'', 3), (''four'', 4), (''five'', 5),
      (''six'', 6), (''seven'', 7), (''eight'', 8), (''nine'', 9), (''ten'', 10),
      (''first'', 1), (''second'', 2), (''third'', 3), (''fourth'', 4), (''fifth'', 5),
      (''sixth'', 6), (''seventh'', 7), (''eighth'', 8), (''ninth'', 9), (''tenth'', 10)]"

definition attentionLanguage :: rx where
  "attentionLanguage =
     OneOf [''attention'', ''quality check'', ''instruction check'', ''bot check'',
            ''captcha'', ''consistency check'', ''control question'', ''human'',
            ''verification'']"

definition politeInstruction :: rx where
  "politeInstruction =
     Alt (cat [Lit ''please'', Many WhiteSpace 1,
               OneOf [''select'', ''choose'', ''pick'', ''mark'', ''enter'', ''type'']])
         (OneOf [''for this question'', ''to show you are'', ''just to check'',
                 ''as a check'', ''for verification''])"

definition typeEnterWrite :: rx where
  "typeEnterWrite = OneOf [''type'', ''enter'', ''write'']"

definition typedNumberPattern :: rx where
  "typedNumberPattern =
     cat [typeEnterWrite, Many WhiteSpace 1, Opt (Seq (Lit ''the'') (Many WhiteSpace 1)),
          OneOf [''number'', ''digit''], Many WhiteSpace 0, Group (Many Digit 1)]"

definition quoteChar :: rx where
  "quoteChar = OneOf [[CHR 0x22], [CHR 0x27]]"

definition typedQuotedPattern :: rx where
  "typedQuotedPattern =
     cat [typeEnterWrite, Many NotQuote 0, quoteChar, Group (Many NotQuote 2), quoteChar]"

definition typedWordPattern :: rx where
  "typedWordPattern =
     cat [typeEnterWrite, Many WhiteSpace 1, Opt (Seq (Lit ''the'') (Many WhiteSpace 1)),
          OneOf [''word'', ''phrase'', ''text'', ''answer''], Many WhiteSpace 1,
          Group (Many LowerAlnumSpace 3), Many WhiteSpace 0,
          Opt (OneOf [''into'', ''in'', ''below'', ''to confirm'', ''exactly'',
                      ''for verification''])]"

definition typedWordGate :: rx where
  "typedWordGate = OneOf [''exactly'', ''attention'', ''human'']"

definition quotePattern :: rx where
  "quotePattern = cat [quoteChar, Group (Many NotQuote 2), quoteChar]"

definition selectVerb :: rx where
  "selectVerb = OneOf [''select'', ''choose'', ''pick'', ''mark'']"

definition colorWord :: rx where
  "colorWord = Lit ''color''"

definition numberPattern :: rx where
  "numberPattern =
     cat [OneOf [''select'', ''choose'', ''pick'', ''mark'', ''tap''], Many WhiteSpace 1,
          Opt (Seq (Lit ''the'') (Many WhiteSpace 1)),
          Opt (OneOf [''number'', ''option'', ''answer'', ''choice'']),
          Many WhiteSpace 0, Group (Many Digit 1)]"

definition explicitPhrases :: "string list" where
  "explicitPhrases =
     [''strongly agree'', ''strongly disagree'', ''agree'', ''disagree'', ''neutral'',
      ''none of the above'', ''all of the above'', ''i am paying attention'',
      ''i am human'', ''i read the instructions'', ''i read the question'',
      ''attention'']"

definition colorPhrases :: "string list" where
  "colorPhrases =
     [''blue'', ''red'', ''green'', ''yellow'', ''orange'', ''purple'', ''black'',
      ''white'', ''pink'', ''brown'']"

definition attentionKeywords :: "string list" where
  "attentionKeywords =
     [''attention'', ''paying attention'', ''i am paying attention'', ''human'',
      ''quality'', ''instruction'']"

definition pushLabelPart :: "directive \<Rightarrow> string \<Rightarrow> directive" where
  "pushLabelPart result part =
     (let trimmed = trim part
      in if trimmed \<noteq> [] \<and> trimmed \<notin> set (labelTargets result)
         then result\<lparr>labelTargets := labelTargets result @ [trimmed]\<rparr>
         else result)"

definition pushLabel :: "bool \<Rightarrow> directive \<Rightarrow> string \<Rightarrow> directive" where
  "pushLabel shouldConsiderTargets result v =
     (if \<not> shouldConsiderTargets then result
      else let normalized = normalize v
           in if normalized = [] then result
              else if includes_str normalized '' and ''
              then foldl pushLabelPart result (split normalized '' and '')
              else if normalized \<notin> set (labelTargets result)
              then result\<lparr>labelTargets := labelTargets result @ [normalized]\<rparr>
              else result)"

definition pushIndex :: "bool \<Rightarrow> directive \<Rightarrow> number \<Rightarrow> directive" where
  "pushIndex shouldConsiderTargets result v =
     (if \<not> shouldConsiderTargets then result
      else case v of
             Infinity \<Rightarrow> result
           | Finite n \<Rightarrow>
               if n \<le> 0 then result
               else if n \<notin> set (indexTargets result)
               then result\<lparr>indexTargets := indexTargets result @ [n]\<rparr>
               else result)"

definition pushKeyword :: "directive \<Rightarrow> string \<Rightarrow> directive" where
  "pushKeyword result keyword =
     (let normalized = normalize keyword
      in if normalized \<noteq> [] \<and> normalized \<notin> set (preferredKeywords result)
         then result\<lparr>preferredKeywords := preferredKeywords result @ [normalized]\<rparr>
         else result)"

text \<open>The typed value: the three patterns of the source, in its order.\<close>

definition extractTypedValue :: "bool \<Rightarrow> string \<Rightarrow> string \<Rightarrow> string option" where
  "extractTypedValue hasAttentionLanguage raw lower =
     (let typedNumberMatch = group1 False typedNumberPattern lower;
          typed1 = (if truthy typedNumberMatch then map_option trim typedNumberMatch else None);
          typedQuotedMatch = group1 True typedQuotedPattern raw
      in if truthy typedQuotedMatch then map_option trim typedQuotedMatch
         else if \<not> truthy typed1
         then (let typedWordMatch = group1 False typedWordPattern lower
               in if truthy typedWordMatch
                     \<and> (hasAttentionLanguage \<or> test False typedWordGate lower)
                  then map_option trim typedWordMatch
                  else typed1)
         else typed1)"

text \<open>The quoted phrases, pushed as labels when a selecting verb occurs.\<close>

definition pushQuoted :: "bool \<Rightarrow> directive \<Rightarrow> string option \<Rightarrow> directive" where
  "pushQuoted shouldConsiderTargets result quoted =
     (let phrase = map_option trim quoted
      in case phrase of
           None \<Rightarrow> result
         | Some p \<Rightarrow> if p \<noteq> [] then pushLabel shouldConsiderTargets result p else result)"

definition wordHit :: "string \<Rightarrow> string \<Rightarrow> bool" where
  "wordHit lower word =
     (includes_str lower (word @ '' option'') \<or> includes_str lower (''option '' @ word)
      \<or> includes_str lower (word @ '' answer'') \<or> includes_str lower (word @ '' choice''))"

definition gatedTargets :: "bool \<Rightarrow> string \<Rightarrow> directive \<Rightarrow> directive" where
  "gatedTargets hasAttentionLanguage lower result =
     (let r1 = foldl (\<lambda>res phrase. if includes_str lower phrase then pushLabel True res phrase
                                     else res) result explicitPhrases;
          r2 = (if test False colorWord lower \<or> hasAttentionLanguage
                then foldl (\<lambda>res color. if includes_str lower color
                                          then pushLabel True res color else res)
                       r1 colorPhrases
                else r1);
          r3 = foldl (\<lambda>res (word, v). if wordHit lower word then pushIndex True res (Finite v)
                                        else res) r2 numberWords;
          numberMatch = group1 False numberPattern lower
      in case numberMatch of
           None \<Rightarrow> r3
         | Some digits \<Rightarrow> if digits \<noteq> [] then pushIndex True r3 (parseInt digits) else r3)"

definition detectAttentionInstruction :: "string \<Rightarrow> directive option" where
  "detectAttentionInstruction text =
     (let raw = trim text
      in if raw = [] then None
         else
           let lower = toLowerCase raw;
               hasAttentionLanguage = test False attentionLanguage lower;
               hasPoliteInstruction = test False politeInstruction lower;
               shouldConsiderTargets = (hasAttentionLanguage \<or> hasPoliteInstruction);
               r0 = \<lparr>labelTargets = [], indexTargets = [], preferredKeywords = [],
                     typedValue = extractTypedValue hasAttentionLanguage raw lower\<rparr>;
               r1 = (if test False selectVerb lower
                     then foldl (pushQuoted shouldConsiderTargets) r0 (execAll quotePattern raw)
                     else r0);
               r2 = (if shouldConsiderTargets then gatedTargets hasAttentionLanguage lower r1
                     else r1);
               r3 = (if hasAttentionLanguage then foldl pushKeyword r2 attentionKeywords
                     else r2);
               result = r3\<lparr>labelTargets := uniq (labelTargets r3),
                             indexTargets := uniq (indexTargets r3),
                             preferredKeywords := uniq (preferredKeywords r3)\<rparr>
           in if labelTargets result = [] \<and> indexTargets result = []
                 \<and> preferredKeywords result = [] \<and> \<not> truthy (typedValue result)
              then None
              else Some result)"

section \<open>The answer bank\<close>

record answer =
  raw :: string
  normalized :: string

record SerializedAnswerEntry =
  rawQuestion :: string
  question :: string
  entryKeywords :: "string list"
  answers :: "answer list"
  entryType :: "string option"

section \<open>Page elements\<close>

text \<open>
  What the resolver reads of an element. \<open>getQuestionText\<close> and \<open>getLabelText\<close> are the
  results of the source's two DOM walks of these names for the element; the attributes
  are as \<open>getAttribute\<close> returns them (absent is \<open>None\<close>). \<open>ident\<close> is the element's
  identity.
\<close>

record select_option =
  optionValue :: string
  disabled :: bool
  innerText :: string

record element =
  ident :: nat
  getQuestionText :: string
  getLabelText :: string
  placeholder :: string
  ariaLabel :: "string option"
  nameAttr :: "string option"
  selectOptions :: "select_option list"

subsection \<open>findEntry\<close>

text \<open>The callback of \<open>answers.find\<close>.\<close>

definition entryMatches :: "string \<Rightarrow> SerializedAnswerEntry \<Rightarrow> bool" where
  "entryMatches questionText entry =
     (if question entry \<noteq> []
         \<and> (includes_str questionText (question entry)
              \<or> includes_str (question entry) questionText)
      then True
      else list_ex (\<lambda>keyword. includes_str questionText keyword) (entryKeywords entry))"

definition findEntry ::
  "SerializedAnswerEntry list \<Rightarrow> element \<Rightarrow> SerializedAnswerEntry option" where
  "findEntry bank el =
     (if bank = [] then None
      else let questionText = normalize (getQuestionText el)
           in if questionText = [] then None
              else find (entryMatches questionText) bank)"

text \<open>
  The lookup as the specification words it, for comparison: first an entry that matches by
  question text, and a keyword match only when no entry does; the empty prompt matches
  nothing.
\<close>

definition questionMatch_spec :: "string \<Rightarrow> SerializedAnswerEntry \<Rightarrow> bool" where
  "questionMatch_spec prompt entry =
     (includes_str prompt (question entry) \<or> includes_str (question entry) prompt)"

definition keywordMatch_spec :: "string \<Rightarrow> SerializedAnswerEntry \<Rightarrow> bool" where
  "keywordMatch_spec prompt entry =
     list_ex (\<lambda>keyword. includes_str prompt keyword) (entryKeywords entry)"

definition findEntry_spec ::
  "SerializedAnswerEntry list \<Rightarrow> string \<Rightarrow> SerializedAnswerEntry option" where
  "findEntry_spec bank prompt =
     (if prompt = [] then None
      else case find (questionMatch_spec prompt) bank of
             Some entry \<Rightarrow> Some entry
           | None \<Rightarrow> find (keywordMatch_spec prompt) bank)"

section \<open>The field resolver\<close>

text \<open>\<open>text.includes(target) || target.includes(text)\<close>\<close>

definition labelHit :: "string \<Rightarrow> string \<Rightarrow> bool" where
  "labelHit text target = (includes_str text target \<or> includes_str target text)"

text \<open>
  \<open>for (const t of ts) { x = f(t); if (x) break; }\<close>: the variable is assigned in every
  round, so after a loop that ran without a hit it is undefined, whatever it held before.
\<close>

fun findEach :: "('t \<Rightarrow> 'a option) \<Rightarrow> 'a option \<Rightarrow> 't list \<Rightarrow> 'a option" where
  "findEach f x [] = x"
| "findEach f x (t # ts) = (case f t of Some y \<Rightarrow> Some y | None \<Rightarrow> findEach f None ts)"

text \<open>\<open>for (const t of ts) { const c = f(t); if (c) { x = c; break; } }\<close>\<close>

fun firstHit :: "('t \<Rightarrow> 'a option) \<Rightarrow> 'a option \<Rightarrow> 't list \<Rightarrow> 'a option" where
  "firstHit f x [] = x"
| "firstHit f x (t # ts) = (case f t of Some y \<Rightarrow> Some y | None \<Rightarrow> firstHit f x ts)"

text \<open>\<open>attention?.labelTargets\<close> and its siblings: empty when there is no directive.\<close>

definition labelTargetsOf :: "directive option \<Rightarrow> string list" where
  "labelTargetsOf attention = (case attention of None \<Rightarrow> [] | Some a \<Rightarrow> labelTargets a)"

definition preferredKeywordsOf :: "directive option \<Rightarrow> string list" where
  "preferredKeywordsOf attention =
     (case attention of None \<Rightarrow> [] | Some a \<Rightarrow> preferredKeywords a)"

definition indexTargetsOf :: "directive option \<Rightarrow> int list" where
  "indexTargetsOf attention = (case attention of None \<Rightarrow> [] | Some a \<Rightarrow> indexTargets a)"

definition typedValueOf :: "directive option \<Rightarrow> string option" where
  "typedValueOf attention = (case attention of None \<Rightarrow> None | Some a \<Rightarrow> typedValue a)"

definition keywordHit :: "string list \<Rightarrow> string \<Rightarrow> bool" where
  "keywordHit kws text = list_ex (\<lambda>keyword. keyword \<noteq> [] \<and> includes_str text keyword) kws"

text \<open>\<open>Math.floor(Math.random() * items.length)\<close>, the random number given.\<close>

definition chooseRandom :: "'a list \<Rightarrow> real \<Rightarrow> 'a option" where
  "chooseRandom items random =
     (if items = [] then None else item_at items \<lfloor>random * real (length items)\<rfloor>)"

subsection \<open>Radio groups\<close>

definition radioLabelStage :: "directive option \<Rightarrow> element list \<Rightarrow> element option" where
  "radioLabelStage attention grp =
     (if labelTargetsOf attention \<noteq> []
      then findEach (\<lambda>target. find (\<lambda>candidate.
               labelHit (normalize (getLabelText candidate)) target) grp)
             None (labelTargetsOf attention)
      else None)"

definition radioKeywordStage ::
  "directive option \<Rightarrow> element list \<Rightarrow> element option \<Rightarrow> element option" where
  "radioKeywordStage attention grp opt =
     (if opt = None \<and> preferredKeywordsOf attention \<noteq> []
      then find (\<lambda>candidate. keywordHit (preferredKeywordsOf attention)
                    (normalize (getLabelText candidate))) grp
      else opt)"

definition radioIndexStage ::
  "directive option \<Rightarrow> element list \<Rightarrow> element option \<Rightarrow> element option" where
  "radioIndexStage attention grp opt =
     (if opt = None \<and> indexTargetsOf attention \<noteq> []
      then firstHit (\<lambda>indexTarget. item_at grp (indexTarget - 1)) opt (indexTargetsOf attention)
      else opt)"

definition radioBankStage ::
  "SerializedAnswerEntry option \<Rightarrow> element list \<Rightarrow> element option \<Rightarrow> element option" where
  "radioBankStage entry grp opt =
     (case entry of
        None \<Rightarrow> opt
      | Some e \<Rightarrow>
          if opt = None
          then findEach (\<lambda>answer. find (\<lambda>candidate.
                   labelHit (normalize (getLabelText candidate)) (normalized answer)) grp)
                 opt (answers e)
          else opt)"

text \<open>The body of the loop over the radio groups: the radio that is clicked, if any.\<close>

definition resolveRadio ::
  "element list \<Rightarrow> SerializedAnswerEntry list \<Rightarrow> real \<Rightarrow> element option" where
  "resolveRadio grp bank random =
     (let questionText = (case grp of [] \<Rightarrow> [] | g # _ \<Rightarrow> getQuestionText g);
          attention = (if questionText \<noteq> [] then detectAttentionInstruction questionText
                       else None);
          entry = (case grp of [] \<Rightarrow> None | g # _ \<Rightarrow> findEntry bank g);
          opt1 = radioLabelStage attention grp;
          opt2 = radioKeywordStage attention grp opt1;
          opt3 = radioIndexStage attention grp opt2;
          opt4 = radioBankStage entry grp opt3
      in if opt4 = None then chooseRandom grp random else opt4)"

subsection \<open>Selects\<close>

text \<open>\<open>!option.value || option.disabled\<close> rejects an option.\<close>

definition usable :: "select_option \<Rightarrow> bool" where
  "usable opt = (optionValue opt \<noteq> [] \<and> \<not> disabled opt)"

text \<open>\<open>normalize(option.innerText || option.value)\<close>\<close>

definition optionText :: "select_option \<Rightarrow> string" where
  "optionText opt =
     normalize (if innerText opt \<noteq> [] then innerText opt else optionValue opt)"

definition selectLabelStage ::
  "directive option \<Rightarrow> select_option list \<Rightarrow> select_option option" where
  "selectLabelStage attention opts =
     (if labelTargetsOf attention \<noteq> []
      then findEach (\<lambda>target. find (\<lambda>opt. usable opt \<and> labelHit (optionText opt) target) opts)
             None (labelTargetsOf attention)
      else None)"

definition selectKeywordStage ::
  "directive option \<Rightarrow> select_option list \<Rightarrow> select_option option
     \<Rightarrow> select_option option" where
  "selectKeywordStage attention opts choice =
     (if choice = None \<and> preferredKeywordsOf attention \<noteq> []
      then find (\<lambda>opt. usable opt \<and> keywordHit (preferredKeywordsOf attention) (optionText opt))
             opts
      else choice)"

definition selectIndexStage ::
  "directive option \<Rightarrow> select_option list \<Rightarrow> select_option option
     \<Rightarrow> select_option option" where
  "selectIndexStage attention opts choice =
     (if choice = None \<and> indexTargetsOf attention \<noteq> []
      then firstHit (\<lambda>indexTarget.
               case item_at opts (indexTarget - 1) of
                 None \<Rightarrow> None
               | Some candidate \<Rightarrow> if usable candidate then Some candidate else None)
             choice (indexTargetsOf attention)
      else choice)"

text \<open>The source enters this stage on \<open>if (entry)\<close> alone, whatever \<open>choice\<close> holds.\<close>

definition selectBankStage ::
  "SerializedAnswerEntry option \<Rightarrow> select_option list \<Rightarrow> select_option option
     \<Rightarrow> select_option option" where
  "selectBankStage entry opts choice =
     (case entry of
        None \<Rightarrow> choice
      | Some e \<Rightarrow>
          findEach (\<lambda>answer. find (\<lambda>opt. usable opt
                      \<and> labelHit (optionText opt) (normalized answer)) opts)
            choice (answers e))"

text \<open>The choices of the attention stages alone, before the bank is consulted.\<close>

definition selectAttentionChoice :: "element \<Rightarrow> select_option option" where
  "selectAttentionChoice sel =
     (let attention = detectAttentionInstruction (getQuestionText sel);
          choice1 = selectLabelStage attention (selectOptions sel);
          choice2 = selectKeywordStage attention (selectOptions sel) choice1
      in selectIndexStage attention (selectOptions sel) choice2)"

text \<open>The body of the loop over the selects: the option whose value is set, if any.\<close>

definition resolveSelect ::
  "element \<Rightarrow> SerializedAnswerEntry list \<Rightarrow> select_option option" where
  "resolveSelect sel bank =
     (let attention = detectAttentionInstruction (getQuestionText sel);
          entry = findEntry bank sel;
          choice1 = selectLabelStage attention (selectOptions sel);
          choice2 = selectKeywordStage attention (selectOptions sel) choice1;
          choice3 = selectIndexStage attention (selectOptions sel) choice2;
          choice4 = selectBankStage entry (selectOptions sel) choice3
      in if choice4 = None then find usable (selectOptions sel) else choice4)"

subsection \<open>Short text\<close>

text \<open>\<open>entry?.answers[0]?.raw\<close>\<close>

definition firstRaw :: "SerializedAnswerEntry option \<Rightarrow> string option" where
  "firstRaw entry =
     (case entry of
        None \<Rightarrow> None
      | Some e \<Rightarrow> (case answers e of [] \<Rightarrow> None | a # _ \<Rightarrow> Some (raw a)))"

definition shortTextSample :: "element \<Rightarrow> SerializedAnswerEntry list \<Rightarrow> string" where
  "shortTextSample input bank =
     (let attention = detectAttentionInstruction (getQuestionText input);
          entry = findEntry bank input;
          typed = (if truthy (typedValueOf attention) then typedValueOf attention else None)
      in case orElse typed (orElse (firstRaw entry) (orElse (Some (placeholder input))
                (orElse (ariaLabel input) (nameAttr input)))) of
           None \<Rightarrow> ''Sample answer''
         | Some v \<Rightarrow> if v = [] then ''Sample answer'' else v)"

text \<open>The loop over \<open>textInputs.slice(0, 2)\<close>: the value written into each input.\<close>

definition fillShortTexts ::
  "element list \<Rightarrow> SerializedAnswerEntry list \<Rightarrow> (nat \<times> string) list" where
  "fillShortTexts textInputs bank =
     map (\<lambda>input. (ident input, shortTextSample input bank)) (take 2 textInputs)"

section \<open>The long-form responder\<close>

datatype error = Thrown string

record GptLongFormRequest =
  prompt :: string
  minLength :: "int option"
  maxLength :: "int option"
  fallback :: "string option"

text \<open>What \<open>client.responses.create\<close> is called with, and what it resolves to.\<close>

record create_params =
  paramModel :: string
  systemContent :: string
  userContent :: string
  max_output_tokens :: int

record response =
  output_text :: "string option"

text \<open>The provider is any function of the call: it resolves (\<open>Inr\<close>) or rejects (\<open>Inl\<close>).\<close>

record GptLongFormResponder =
  client :: "create_params \<Rightarrow> error + response"
  model :: string
  basePrompt :: string

fun showNat :: "nat \<Rightarrow> string" where
  "showNat n = (if n < 10 then [char_of (48 + n)]
                else showNat (n div 10) @ [char_of (48 + n mod 10)])"

definition showInt :: "int \<Rightarrow> string" where
  "showInt i = (if i < 0 then CHR ''-'' # showNat (nat (- i)) else showNat (nat i))"

fun joinWith :: "string \<Rightarrow> string list \<Rightarrow> string" where
  "joinWith sep [] = []"
| "joinWith sep [v] = v"
| "joinWith sep (v # vs) = v @ sep @ joinWith sep vs"

text \<open>\<open>request.minLength && request.minLength > 0\<close>\<close>

definition positive :: "int option \<Rightarrow> bool" where
  "positive n = (case n of None \<Rightarrow> False | Some v \<Rightarrow> v \<noteq> 0 \<and> v > 0)"

definition requirements :: "GptLongFormRequest \<Rightarrow> string list" where
  "requirements request =
     [''Respond as a human participant describing personal experiences.'',
      ''Keep the answer within 3-5 sentences unless the question requests otherwise.'']
     @ (if positive (minLength request)
        then [''Ensure the response is at least '' @ showInt (the (minLength request))
              @ '' characters.'']
        else [])
     @ (if positive (maxLength request)
        then [''Keep the response under '' @ showInt (the (maxLength request))
              @ '' characters.'']
        else [])"

definition createParams ::
  "GptLongFormResponder \<Rightarrow> GptLongFormRequest \<Rightarrow> string \<Rightarrow> create_params" where
  "createParams responder request trimmedPrompt =
     \<lparr>paramModel = model responder,
      systemContent = basePrompt responder @ [CHR 0x0A, CHR 0x0A]
                        @ joinWith [CHR 0x0A] (requirements request),
      userContent = ''Survey prompt: '' @ trimmedPrompt @ [CHR 0x0A, CHR 0x0A]
                      @ ''Write a thoughtful answer in the first person.'',
      max_output_tokens = (if positive (maxLength request)
                           then max 120 (the (maxLength request)) else 240)\<rparr>"

text \<open>
  The body of the \<open>try\<close> block: an exception (\<open>Inl\<close>), the text returned from inside the
  block (\<open>Inr (Some text)\<close>), or the end of the block reached (\<open>Inr None\<close>).
\<close>

definition tryGenerate ::
  "GptLongFormResponder \<Rightarrow> GptLongFormRequest \<Rightarrow> string \<Rightarrow> error + string option" where
  "tryGenerate responder request trimmedPrompt =
     (case client responder (createParams responder request trimmedPrompt) of
        Inl err \<Rightarrow> Inl err
      | Inr resp \<Rightarrow>
          (let text = map_option trim (output_text resp)
           in if truthy text then Inr text else Inr None))"

text \<open>\<open>generate\<close>: \<open>Inl\<close> would be an exception that leaves the method.\<close>

definition generate ::
  "GptLongFormResponder \<Rightarrow> GptLongFormRequest \<Rightarrow> error + string option" where
  "generate responder request =
     (let trimmedPrompt = trim (prompt request)
      in if trimmedPrompt = [] then Inr (fallback request)
         else case tryGenerate responder request trimmedPrompt of
                Inr (Some text) \<Rightarrow> Inr (Some text)
              | Inr None \<Rightarrow> Inr (fallback request)
              | Inl err \<Rightarrow> Inr (fallback request))"

section \<open>Long-form answers\<close>

text \<open>
  What \<open>buildLongFormAnswers\<close> reads of a textarea: the key \<open>deriveKey\<close> gives it, the
  prompt \<open>collectPrompt\<close> collects, and its DOM properties (\<open>minLength\<close> and \<open>maxLength\<close>
  are -1 and \<open>rows\<close> is 2 when the attribute is missing).
\<close>

record textarea =
  answerKey :: string
  collectedPrompt :: string
  minLengthProp :: int
  maxLengthProp :: int
  placeholderProp :: string
  rowsProp :: int
  textareaDisabled :: bool
  offsetParentNull :: bool

record LongFormTarget =
  key :: string
  targetPrompt :: string
  targetMinLength :: "int option"
  targetMaxLength :: "int option"
  targetPlaceholder :: "string option"
  rows :: "int option"

definition toTarget :: "textarea \<Rightarrow> LongFormTarget" where
  "toTarget ta =
     \<lparr>key = answerKey ta,
      targetPrompt = collectedPrompt ta,
      targetMinLength = (if minLengthProp ta > 0 then Some (minLengthProp ta) else None),
      targetMaxLength = (if maxLengthProp ta > 0 then Some (maxLengthProp ta) else None),
      targetPlaceholder = (if placeholderProp ta \<noteq> [] then Some (placeholderProp ta) else None),
      rows = (if rowsProp ta \<noteq> 0 then Some (rowsProp ta) else None)\<rparr>"

text \<open>The textareas the page query keeps.\<close>

definition visibleTextareas :: "textarea list \<Rightarrow> textarea list" where
  "visibleTextareas tas = filter (\<lambda>ta. \<not> textareaDisabled ta \<and> \<not> offsetParentNull ta) tas"

text \<open>\<open>n ?? 0\<close>\<close>

definition orZero :: "int option \<Rightarrow> int" where
  "orZero n = (case n of None \<Rightarrow> 0 | Some v \<Rightarrow> v)"

definition shouldUseGpt :: "LongFormTarget \<Rightarrow> bool" where
  "shouldUseGpt target =
     (orZero (rows target) > 2 \<or> orZero (targetMinLength target) \<ge> 120
      \<or> length (targetPrompt target) \<ge> 40)"

definition requestFor :: "LongFormTarget \<Rightarrow> GptLongFormRequest" where
  "requestFor target =
     \<lparr>prompt = (case orElse (Some (targetPrompt target)) (targetPlaceholder target) of
                  None \<Rightarrow> ''Provide a friendly, first-person survey response.''
                | Some v \<Rightarrow> if v = [] then ''Provide a friendly, first-person survey response.''
                            else v),
      minLength = targetMinLength target,
      maxLength = targetMaxLength target,
      fallback = (case targetPlaceholder target of
                    None \<Rightarrow> Some ''This response was generated automatically.''
                  | Some ph \<Rightarrow> if ph \<noteq> [] \<and> length (trim ph) > 0 then Some ph
                               else Some ''This response was generated automatically.'')\<rparr>"

text \<open>
  The loop over the targets: the requests sent to the responder, in order, and the answers
  by key. An exception of \<open>generate\<close> would leave the loop.
\<close>

fun longFormLoop ::
  "GptLongFormResponder \<Rightarrow> LongFormTarget list \<Rightarrow> (string \<rightharpoonup> string)
     \<Rightarrow> error + (GptLongFormRequest list \<times> (string \<rightharpoonup> string))" where
  "longFormLoop responder [] acc = Inr ([], acc)"
| "longFormLoop responder (target # targets) acc =
     (if \<not> shouldUseGpt target then longFormLoop responder targets acc
      else case generate responder (requestFor target) of
             Inl err \<Rightarrow> Inl err
           | Inr resp \<Rightarrow>
               (case longFormLoop responder targets
                       (if truthy resp then acc(key target \<mapsto> the resp) else acc) of
                  Inl err \<Rightarrow> Inl err
                | Inr (reqs, result) \<Rightarrow> Inr (requestFor target # reqs, result)))"

definition buildLongFormAnswers ::
  "GptLongFormResponder option \<Rightarrow> textarea list
     \<Rightarrow> error + (GptLongFormRequest list \<times> (string \<rightharpoonup> string))" where
  "buildLongFormAnswers longFormResponder tas =
     (case longFormResponder of
        None \<Rightarrow> Inr ([], Map.empty)
      | Some responder \<Rightarrow> longFormLoop responder (map toTarget (visibleTextareas tas)) Map.empty)"

section \<open>The human motion simulator\<close>

text \<open>
  Numbers are reals, so the \<open>NaN\<close> branch of \<open>clamp\<close> has no counterpart. The values of
  \<open>Math.random()\<close> are given as a sequence \<open>rnd\<close>; each operation takes the index of the
  next unused one and returns the events it causes and the index it leaves. An event is a
  call of \<open>page.mouse.move\<close> (with its \<open>steps\<close>, if given) or a pause in milliseconds.
\<close>

type_synonym point = "real \<times> real"

record viewport =
  width :: real
  height :: real

datatype event = MouseMove real real "int option" | Pause int

record simulator =
  mousePosition :: "point option"
  nextDraw :: nat

definition clamp :: "real \<Rightarrow> real \<Rightarrow> real \<Rightarrow> real" where
  "clamp v lo hi = (if v < lo then lo else if v > hi then hi else v)"

definition clampX :: "viewport \<Rightarrow> real \<Rightarrow> real" where
  "clampX vp v = clamp v 1 (width vp - 1)"

definition clampY :: "viewport \<Rightarrow> real \<Rightarrow> real" where
  "clampY vp v = clamp v 1 (height vp - 1)"

definition randomBetween :: "real \<Rightarrow> real \<Rightarrow> real \<Rightarrow> real" where
  "randomBetween lo hi u = lo + u * (hi - lo)"

text \<open>\<open>Math.round\<close>: halves go up.\<close>

definition mathRound :: "real \<Rightarrow> int" where
  "mathRound v = \<lfloor>v + 1 / 2\<rfloor>"

definition humanPause :: "(nat \<Rightarrow> real) \<Rightarrow> real \<Rightarrow> real \<Rightarrow> nat \<Rightarrow> event list \<times> nat" where
  "humanPause rnd lo hi k = ([Pause (mathRound (randomBetween lo hi (rnd k)))], Suc k)"

text \<open>One round of the loop of \<open>followPath\<close>: the move to an intermediate point, and a pause.\<close>

definition segmentMove ::
  "(nat \<Rightarrow> real) \<Rightarrow> viewport \<Rightarrow> point \<Rightarrow> point \<Rightarrow> int \<Rightarrow> real \<Rightarrow> int \<Rightarrow> nat
     \<Rightarrow> event list \<times> nat" where
  "segmentMove rnd vp from to segments maxOffset index k =
     (let progress = real_of_int index / real_of_int (segments + 1);
          offsetStrength = (rnd k - 0.5) * 2 * maxOffset * (1 - progress);
          intermediateX = clampX vp (fst from + (fst to - fst from) * progress + offsetStrength);
          intermediateY = clampY vp (snd from + (snd to - snd from) * progress
                                       + offsetStrength * 0.6);
          move = MouseMove intermediateX intermediateY
                   (Some (max 3 (mathRound (randomBetween 4 8 (rnd (Suc k))))));
          (pause, k') = humanPause rnd 25 60 (Suc (Suc k))
      in (move # pause, k'))"

text \<open>\<open>for (let index = 1; index <= segments; index += 1)\<close>\<close>

function segmentLoop ::
  "(nat \<Rightarrow> real) \<Rightarrow> viewport \<Rightarrow> point \<Rightarrow> point \<Rightarrow> int \<Rightarrow> real \<Rightarrow> int \<Rightarrow> nat
     \<Rightarrow> event list \<times> nat" where
  "segmentLoop rnd vp from to segments maxOffset index k =
     (if index \<le> segments
      then (let (evs, k1) = segmentMove rnd vp from to segments maxOffset index k;
                (rest, k2) = segmentLoop rnd vp from to segments maxOffset (index + 1) k1
            in (evs @ rest, k2))
      else ([], k))"
  by pat_completeness auto
termination
  by (relation "measure (\<lambda>(rnd, vp, from, to, segments, maxOffset, index, k).
                  nat (segments + 1 - index))") auto

definition followPath ::
  "(nat \<Rightarrow> real) \<Rightarrow> viewport \<Rightarrow> point \<Rightarrow> point \<Rightarrow> nat \<Rightarrow> event list \<times> nat" where
  "followPath rnd vp from to k =
     (let segments = max 1 (mathRound (randomBetween 2 4 (rnd k)));
          distance = sqrt ((fst to - fst from)\<^sup>2 + (snd to - snd from)\<^sup>2);
          maxOffset = min 45 (distance * 0.3);
          (evs, k1) = segmentLoop rnd vp from to segments maxOffset 1 (Suc k);
          final = MouseMove (clampX vp (fst to)) (clampY vp (snd to))
                    (Some (max 4 (mathRound (randomBetween 6 14 (rnd k1)))));
          (pause, k2) = humanPause rnd 30 70 (Suc k1)
      in (evs @ final # pause, k2))"

text \<open>The start of a move: the persisted position, or a seed when there is none yet.\<close>

definition startPosition ::
  "(nat \<Rightarrow> real) \<Rightarrow> viewport \<Rightarrow> simulator \<Rightarrow> point \<times> event list \<times> nat" where
  "startPosition rnd vp sim =
     (case mousePosition sim of
        Some start \<Rightarrow> (start, [], nextDraw sim)
      | None \<Rightarrow>
          (let k = nextDraw sim;
               seedX = randomBetween (width vp * 0.25) (width vp * 0.75) (rnd k);
               seedY = randomBetween (height vp * 0.25) (height vp * 0.75) (rnd (Suc k));
               move = MouseMove seedX seedY (Some (2 + \<lfloor>rnd (Suc (Suc k)) * 3\<rfloor>));
               (pause, k') = humanPause rnd 60 140 (Suc (Suc (Suc k)))
           in ((seedX, seedY), move # pause, k')))"

text \<open>The detour of a move with \<open>overshoot\<close>: the path to a point near the target.\<close>

definition overshootPath ::
  "(nat \<Rightarrow> real) \<Rightarrow> viewport \<Rightarrow> point \<Rightarrow> point \<Rightarrow> nat \<Rightarrow> point \<times> event list \<times> nat" where
  "overshootPath rnd vp origin target k =
     (let overshootX = clampX vp (fst target + randomBetween (- 18) 18 (rnd k));
          overshootY = clampY vp (snd target + randomBetween (- 18) 18 (rnd (Suc k)));
          (evs, k') = followPath rnd vp origin (overshootX, overshootY) (Suc (Suc k))
      in ((overshootX, overshootY), evs, k'))"

definition moveMouseNaturally ::
  "(nat \<Rightarrow> real) \<Rightarrow> viewport option \<Rightarrow> point \<Rightarrow> bool \<Rightarrow> simulator
     \<Rightarrow> event list \<times> simulator" where
  "moveMouseNaturally rnd pageViewport target overshoot sim =
     (case pageViewport of
        None \<Rightarrow> ([MouseMove (fst target) (snd target) None],
                 sim\<lparr>mousePosition := Some target\<rparr>)
      | Some vp \<Rightarrow>
          (let (start, evs0, k0) = startPosition rnd vp sim;
               (origin, evs1, k1) = (if overshoot then overshootPath rnd vp start target k0
                                     else (start, [], k0));
               (evs2, k2) = followPath rnd vp origin target k1
           in (evs0 @ evs1 @ evs2,
               \<lparr>mousePosition = Some (clampX vp (fst target), clampY vp (snd target)),
                nextDraw = k2\<rparr>)))"

text \<open>The points of the mouse moves among some events, in order.\<close>

fun movePoints :: "event list \<Rightarrow> point list" where
  "movePoints [] = []"
| "movePoints (MouseMove px py st # evs) = (px, py) # movePoints evs"
| "movePoints (Pause d # evs) = movePoints evs"

section \<open>The step state machine\<close>

record frame =
  frameId :: nat
  url :: string

record page =
  frames :: "frame list"
  mainFrame :: frame

definition surveyUrl :: rx where
  "surveyUrl = OneOf [''survey'', ''qualtrics'', ''question'', ''form'']"

definition getActiveSurveyFrame :: "page \<Rightarrow> frame option" where
  "getActiveSurveyFrame pg =
     (let candidate = find (\<lambda>fr. test True surveyUrl (url fr)
                                  \<and> frameId fr \<noteq> frameId (mainFrame pg)) (frames pg)
      in case candidate of Some fr \<Rightarrow> Some fr | None \<Rightarrow> Some (mainFrame pg))"

definition completionHints :: "string list" where
  "completionHints =
     [''thank you'', ''completed'', ''finished'', ''you'' @ [CHR 0x27] @ ''ve earned'',
      ''no more surveys'']"

text \<open>\<open>hasCompletedSurvey\<close>, on the \<open>innerText\<close> of the frame's body.\<close>

definition hasCompletedSurvey :: "string \<Rightarrow> bool" where
  "hasCompletedSurvey bodyInnerText =
     list_ex (\<lambda>hint. includes_str (toLowerCase bodyInnerText) hint) completionHints"

text \<open>
  The environment of a run, by step (counted from 0): the page as \<open>getPage\<close> sees it, the
  text of a frame's body, and the results of the field pass (\<open>answerCurrentStep\<close>) and of
  \<open>advance\<close> on a frame. The pauses between the calls take time only and are left out.
\<close>

record environment =
  pageAt :: "int \<Rightarrow> page"
  bodyText :: "int \<Rightarrow> frame \<Rightarrow> string"
  answerCurrentStep :: "int \<Rightarrow> frame \<Rightarrow> bool"
  advance :: "int \<Rightarrow> frame \<Rightarrow> bool"

text \<open>The five ways out of \<open>answerSurvey\<close>, and what a run does, in order.\<close>

datatype status =
    NoFrame
  | Completed
  | StalledNoInteraction
  | StalledNoAdvance
  | MaxStepsReached

datatype action =
    CheckCompletion int bool
  | FieldPass int bool
  | Advance int bool
  | WaitForIdle int

record run =
  runStatus :: status
  stepIndex :: int
  actions :: "action list"

function stepLoop :: "environment \<Rightarrow> int \<Rightarrow> int \<Rightarrow> action list \<Rightarrow> run" where
  "stepLoop env maxSteps step done =
     (if step < maxSteps
      then (case getActiveSurveyFrame (pageAt env step) of
              None \<Rightarrow> \<lparr>runStatus = NoFrame, stepIndex = step, actions = done\<rparr>
            | Some fr \<Rightarrow>
                (let isComplete = hasCompletedSurvey (bodyText env step fr);
                     done1 = done @ [CheckCompletion step isComplete]
                 in if isComplete
                    then \<lparr>runStatus = Completed, stepIndex = step, actions = done1\<rparr>
                    else
                      let interacted = answerCurrentStep env step fr;
                          done2 = done1 @ [FieldPass step interacted]
                      in if \<not> interacted
                         then \<lparr>runStatus = StalledNoInteraction, stepIndex = step,
                                actions = done2\<rparr>
                         else
                           let advanced = advance env step fr;
                               done3 = done2 @ [Advance step advanced]
                           in if \<not> advanced
                              then \<lparr>runStatus = StalledNoAdvance, stepIndex = step,
                                     actions = done3\<rparr>
                              else stepLoop env maxSteps (step + 1)
                                     (done3 @ [WaitForIdle step])))
      else \<lparr>runStatus = MaxStepsReached, stepIndex = step, actions = done\<rparr>)"
  by pat_completeness auto
termination
  by (relation "measure (\<lambda>(env, maxSteps, step, done). nat (maxSteps - step))") auto

text \<open>\<open>answerSurvey\<close>: \<open>getPage\<close> throws when the page is not there yet.\<close>

definition answerSurvey :: "bool \<Rightarrow> environment \<Rightarrow> int \<Rightarrow> error + run" where
  "answerSurvey pageInitialised env maxSteps =
     (if \<not> pageInitialised
      then Inl (Thrown ''The browser page has not been initialised yet.'')
      else Inr (stepLoop env maxSteps 0 []))"

text \<open>The result of the first completion check of a run, and of its first field pass.\<close>

fun firstCheck :: "action list \<Rightarrow> bool option" where
  "firstCheck [] = None"
| "firstCheck (CheckCompletion k c # rest) = Some c"
| "firstCheck (a # rest) = firstCheck rest"

fun firstFieldPass :: "action list \<Rightarrow> bool option" where
  "firstFieldPass [] = None"
| "firstFieldPass (FieldPass k b # rest) = Some b"
| "firstFieldPass (a # rest) = firstFieldPass rest"

text \<open>Every field pass of a run comes right after a completion check of the same step that
  found the survey not completed.\<close>

definition checkedPasses :: "action list \<Rightarrow> bool" where
  "checkedPasses acts = (\<forall>i k b. i < length acts \<and> acts ! i = FieldPass k b \<longrightarrow> 0 < i \<and> acts ! (i - 1) = CheckCompletion k False)"

section \<open>Example inputs\<close>

text \<open>A bank whose first entry matches the field below by keyword only, and whose second
  entry matches it by question text.\<close>

definition petEntry :: SerializedAnswerEntry where
  "petEntry = \<lparr>rawQuestion = ''Pet'', question = ''pet'', entryKeywords = [''color''],
                answers = [\<lparr>raw = ''Dog'', normalized = ''dog''\<rparr>], entryType = None\<rparr>"

definition colorEntry :: SerializedAnswerEntry where
  "colorEntry = \<lparr>rawQuestion = ''Favorite color'', question = ''favorite color'',
                  entryKeywords = [],
                  answers = [\<lparr>raw = ''Red'', normalized = ''red''\<rparr>], entryType = None\<rparr>"

definition colorField :: element where
  "colorField = \<lparr>ident = 0, getQuestionText = ''Favorite color?'', getLabelText = [],
                  placeholder = [], ariaLabel = None, nameAttr = None, selectOptions = []\<rparr>"

text \<open>A responder whose provider rejects every call, and a request.\<close>

definition failingResponder :: GptLongFormResponder where
  "failingResponder = \<lparr>client = (\<lambda>params. Inl (Thrown ''429'')), model = ''gpt-4.1-mini'',
                        basePrompt = ''Answer.''\<rparr>"

definition hobbyRequest :: GptLongFormRequest where
  "hobbyRequest = \<lparr>prompt = ''Describe your hobbies'', minLength = Some 150, maxLength = None,
                    fallback = Some ''I like hiking.''\<rparr>"

text \<open>A page with a survey frame beside its main frame; an environment in which the
  completion text is there from the start, and one whose field pass finds nothing.\<close>

definition topFrame :: frame where
  "topFrame = \<lparr>frameId = 0, url = ''https://app.surveyjunkie.com/dashboard''\<rparr>"

definition surveyFrame :: frame where
  "surveyFrame = \<lparr>frameId = 1, url = ''https://example.com/Survey/42''\<rparr>"

definition plainPage :: page where
  "plainPage = \<lparr>frames = [topFrame], mainFrame = topFrame\<rparr>"

definition doneEnv :: environment where
  "doneEnv = \<lparr>pageAt = (\<lambda>step. plainPage),
               bodyText = (\<lambda>step fr. ''Thank you for your time!''),
               answerCurrentStep = (\<lambda>step fr. True),
               advance = (\<lambda>step fr. True)\<rparr>"

definition emptyEnv :: environment where
  "emptyEnv = \<lparr>pageAt = (\<lambda>step. plainPage),
                bodyText = (\<lambda>step fr. ''Question 1''),
                answerCurrentStep = (\<lambda>step fr. False),
                advance = (\<lambda>step fr. True)\<rparr>"

text \<open>Two textareas: one row, a prompt of ten characters; and a minimal length of 150.\<close>

definition shortArea :: textarea where
  "shortArea = \<lparr>answerKey = ''q1'', collectedPrompt = ''Your name?'', minLengthProp = - 1,
                 maxLengthProp = - 1, placeholderProp = [], rowsProp = 1,
                 textareaDisabled = False, offsetParentNull = False\<rparr>"

definition longArea :: textarea where
  "longArea = \<lparr>answerKey = ''q2'', collectedPrompt = ''Why?'', minLengthProp = 150,
                maxLengthProp = - 1, placeholderProp = [], rowsProp = 2,
                textareaDisabled = False, offsetParentNull = False\<rparr>"

text \<open>A viewport, a simulator whose cursor is at a known place, and random numbers that
  are all one half.\<close>

definition smallViewport :: viewport where
  "smallViewport = \<lparr>width = 1280, height = 720\<rparr>"

definition offTarget :: point where
  "offTarget = (2000, - 5)"

definition restingSimulator :: simulator where
  "restingSimulator = \<lparr>mousePosition = Some (100, 100), nextDraw = 0\<rparr>"

definition halves :: "nat \<Rightarrow> real" where
  "halves k = 1 / 2"

text \<open>The prompts of the specification's examples, and fields that carry them.\<close>

definition attentionPrompt :: string where
  "attentionPrompt = ''Please select 'Blue' to verify you are paying attention''"

definition thirdPrompt :: string where
  "thirdPrompt = ''Choose the third option''"

definition politeThirdPrompt :: string where
  "politeThirdPrompt = ''Please choose the third option''"

definition bananaPrompt :: string where
  "bananaPrompt = ''Type the word banana to confirm you read this''"

definition quotedBananaPrompt :: string where
  "quotedBananaPrompt =
     ''Type the word '' @ [CHR 0x22] @ ''banana'' @ [CHR 0x22] @ '' to confirm you read this''"

text \<open>An input element with a question text and a label, and nothing else.\<close>

definition field :: "nat \<Rightarrow> string \<Rightarrow> string \<Rightarrow> element" where
  "field n q l = \<lparr>ident = n, getQuestionText = q, getLabelText = l, placeholder = [],
                  ariaLabel = None, nameAttr = None, selectOptions = []\<rparr>"

definition colourRadios :: "element list" where
  "colourRadios = [field 0 attentionPrompt ''Red'', field 1 attentionPrompt ''Green'',
                   field 2 attentionPrompt ''Blue'', field 3 attentionPrompt ''Yellow'']"

definition letterRadios :: "string \<Rightarrow> element list" where
  "letterRadios q = [field 0 q ''A'', field 1 q ''B'', field 2 q ''C'', field 3 q ''D'']"

text \<open>Bank entries for the attention prompt: one answers Red, one answers a colour that
  is not among the options.\<close>

definition redEntry :: SerializedAnswerEntry where
  "redEntry = \<lparr>rawQuestion = attentionPrompt,
                question = ''please select blue to verify you are paying attention'',
                entryKeywords = [],
                answers = [\<lparr>raw = ''Red'', normalized = ''red''\<rparr>], entryType = None\<rparr>"

definition secondEntry :: SerializedAnswerEntry where
  "secondEntry = \<lparr>rawQuestion = thirdPrompt, question = ''choose the third option'',
                   entryKeywords = [],
                   answers = [\<lparr>raw = ''E'', normalized = ''e''\<rparr>,
                              \<lparr>raw = ''B'', normalized = ''b''\<rparr>],
                   entryType = None\<rparr>"

definition purpleEntry :: SerializedAnswerEntry where
  "purpleEntry = \<lparr>rawQuestion = attentionPrompt,
                   question = ''please select blue to verify you are paying attention'',
                   entryKeywords = [],
                   answers = [\<lparr>raw = ''Purple'', normalized = ''purple''\<rparr>],
                   entryType = None\<rparr>"

definition colourOption :: "string \<Rightarrow> select_option" where
  "colourOption v = \<lparr>optionValue = v, disabled = False, innerText = v\<rparr>"

definition colourSelect :: element where
  "colourSelect =
     \<lparr>ident = 0, getQuestionText = attentionPrompt, getLabelText = [], placeholder = [],
      ariaLabel = None, nameAttr = None,
      selectOptions = [\<lparr>optionValue = [], disabled = False, innerText = ''Choose one''\<rparr>,
                       colourOption ''Red'', colourOption ''Green'', colourOption ''Blue'']\<rparr>"

section \<open>Substring search\<close>

lemma startsWith_iff: "startsWith False s p \<longleftrightarrow> (\<exists>b. s = p @ b)"
  by (induction False s p rule: startsWith.induct) auto

lemma includes_str_iff: "includes_str s p \<longleftrightarrow> (\<exists>a b. s = a @ p @ b)"
proof (induction s)
  case Nil
  then show ?case by simp
next
  case (Cons c cs)
  show ?case
  proof
    assume "includes_str (c # cs) p"
    then consider "startsWith False (c # cs) p" | "includes_str cs p" by auto
    then show "\<exists>a b. c # cs = a @ p @ b"
    proof cases
      case 1
      then obtain b where "c # cs = p @ b" by (auto simp: startsWith_iff)
      then have "c # cs = [] @ p @ b" by simp
      then show ?thesis by blast
    next
      case 2
      then obtain a b where "cs = a @ p @ b" using Cons.IH by blast
      then have "c # cs = (c # a) @ p @ b" by simp
      then show ?thesis by blast
    qed
  next
    assume "\<exists>a b. c # cs = a @ p @ b"
    then obtain a b where ab: "c # cs = a @ p @ b" by blast
    show "includes_str (c # cs) p"
    proof (cases a)
      case Nil
      with ab have "startsWith False (c # cs) p" by (simp add: startsWith_iff)
      then show ?thesis by simp
    next
      case (Cons x a')
      with ab have "cs = a' @ p @ b" by simp
      then have "includes_str cs p" using Cons.IH by blast
      then show ?thesis by simp
    qed
  qed
qed

section \<open>Parsed numbers\<close>

text \<open>Below 2 ^ 53 the parsed number is exact; above, it is rounded, and a string of 400
  digits gives \<open>Infinity\<close>, which \<open>pushIndex\<close> drops.\<close>

lemma bitLength_le: "n < 2 ^ k \<Longrightarrow> bitLength n \<le> k"
proof (induction k arbitrary: n)
  case 0
  then show ?case by simp
next
  case (Suc k)
  show ?case
  proof (cases "n \<le> 0")
    case True
    then show ?thesis by simp
  next
    case False
    have "n div 2 < 2 ^ k" using Suc.prems by simp
    then have "bitLength (n div 2) \<le> k" by (rule Suc.IH)
    then show ?thesis using False by (subst bitLength.simps) simp
  qed
qed

lemma toDouble_exact: "n < 2 ^ 53 \<Longrightarrow> toDouble n = Finite n"
  by (simp add: toDouble_def bitLength_le del: bitLength.simps)

lemma parseInt_examples:
  "parseInt ''3'' = Finite 3
   \<and> parseInt ''9007199254740993'' = Finite 9007199254740992
   \<and> parseInt ''9007199254740995'' = Finite 9007199254740996"
  by code_simp

lemma parseInt_huge: "parseInt (replicate 400 CHR ''9'') = Infinity"
  by code_simp

section \<open>Answer-bank lookup\<close>

text \<open>
  C5, as the specification states it, fails: the lookup is one pass over the bank, so an
  earlier entry that matches by keyword only wins over a later entry that matches by
  question text, where the specification's two-phase lookup returns the later one.
\<close>

theorem findEntry_keyword_before_question:
  "findEntry [petEntry, colorEntry] colorField = Some petEntry
   \<and> findEntry_spec [petEntry, colorEntry] (normalize (getQuestionText colorField))
       = Some colorEntry
   \<and> petEntry \<noteq> colorEntry"
  by code_simp

text \<open>
  C5, amended: the lookup returns the first entry of the bank, in list order, that matches
  at all, where an entry matches when its normalized question is not empty and contains
  the prompt or is contained in it, or when one of its keywords is contained in the
  prompt. It returns nothing exactly when the normalized prompt is empty or no entry
  matches.
\<close>

theorem findEntry_first_match:
  "(findEntry bank el = Some entry \<longleftrightarrow>
      normalize (getQuestionText el) \<noteq> []
      \<and> (\<exists>i < length bank. bank ! i = entry
            \<and> entryMatches (normalize (getQuestionText el)) entry
            \<and> (\<forall>j < i. \<not> entryMatches (normalize (getQuestionText el)) (bank ! j))))
   \<and> (findEntry bank el = None \<longleftrightarrow>
        normalize (getQuestionText el) = []
        \<or> (\<forall>e \<in> set bank. \<not> entryMatches (normalize (getQuestionText el)) e))
   \<and> (entryMatches q e \<longleftrightarrow>
        (question e \<noteq> []
         \<and> ((\<exists>a b. q = a @ question e @ b) \<or> (\<exists>a b. question e = a @ q @ b)))
        \<or> (\<exists>kw \<in> set (entryKeywords e). \<exists>a b. q = a @ kw @ b))"
proof (intro conjI)
  show "findEntry bank el = Some entry \<longleftrightarrow>
      normalize (getQuestionText el) \<noteq> []
      \<and> (\<exists>i < length bank. bank ! i = entry
            \<and> entryMatches (normalize (getQuestionText el)) entry
            \<and> (\<forall>j < i. \<not> entryMatches (normalize (getQuestionText el)) (bank ! j)))"
    by (cases "bank = []") (auto simp: findEntry_def Let_def find_Some_iff)
  show "findEntry bank el = None \<longleftrightarrow>
        normalize (getQuestionText el) = []
        \<or> (\<forall>e \<in> set bank. \<not> entryMatches (normalize (getQuestionText el)) e)"
    by (cases "bank = []") (auto simp: findEntry_def Let_def find_None_iff)
  show "entryMatches q e \<longleftrightarrow>
        (question e \<noteq> []
         \<and> ((\<exists>a b. q = a @ question e @ b) \<or> (\<exists>a b. question e = a @ q @ b)))
        \<or> (\<exists>kw \<in> set (entryKeywords e). \<exists>a b. q = a @ kw @ b)"
    by (auto simp: entryMatches_def list_ex_iff includes_str_iff)
qed

theorem findEntry_first_match_witness:
  "normalize (getQuestionText colorField) \<noteq> []
   \<and> (\<exists>i < length [petEntry, colorEntry]. [petEntry, colorEntry] ! i = petEntry
         \<and> entryMatches (normalize (getQuestionText colorField)) petEntry)"
proof -
  have "findEntry [petEntry, colorEntry] colorField = Some petEntry"
    by code_simp
  then show ?thesis
    using findEntry_first_match [of "[petEntry, colorEntry]" colorField petEntry]
    by blast
qed

section \<open>The responder's boundary\<close>

lemma generate_total: "\<exists>v. generate responder request = Inr v"
  by (auto simp: generate_def Let_def split: sum.splits option.splits)

text \<open>
  C8: \<open>generate\<close> always returns a string or undefined and lets no exception out; when
  the trimmed prompt is empty, when the provider rejects the call, and when the provider's
  output text is missing or empty after trimming, it returns the request's fallback.
\<close>

theorem generate_falls_back:
  "(\<exists>v. generate responder request = Inr v)
   \<and> (trim (prompt request) = [] \<longrightarrow> generate responder request = Inr (fallback request))
   \<and> (\<forall>err. client responder (createParams responder request (trim (prompt request)))
               = Inl err
         \<longrightarrow> generate responder request = Inr (fallback request))
   \<and> (\<forall>resp. client responder (createParams responder request (trim (prompt request)))
                = Inr resp
              \<and> \<not> truthy (map_option trim (output_text resp))
         \<longrightarrow> generate responder request = Inr (fallback request))"
  by (auto simp: generate_def tryGenerate_def Let_def split: sum.splits option.splits)

theorem generate_falls_back_witness:
  "client failingResponder
     (createParams failingResponder hobbyRequest (trim (prompt hobbyRequest)))
     = Inl (Thrown ''429'')
   \<and> generate failingResponder hobbyRequest = Inr (Some ''I like hiking.'')"
  using generate_falls_back [of failingResponder hobbyRequest]
  by (simp add: failingResponder_def hobbyRequest_def)

section \<open>Long-form eligibility\<close>

lemma longFormLoop_requests:
  "\<exists>ans. longFormLoop responder targets acc
           = Inr (map requestFor (filter shouldUseGpt targets), ans)"
proof (induction targets arbitrary: acc)
  case Nil
  then show ?case by simp
next
  case (Cons target targets)
  show ?case
  proof (cases "shouldUseGpt target")
    case False
    then show ?thesis using Cons.IH [of acc] by simp
  next
    case True
    obtain resp where g: "generate responder (requestFor target) = Inr resp"
      using generate_total by blast
    obtain ans where
      "longFormLoop responder targets (if truthy resp then acc(key target \<mapsto> the resp) else acc)
         = Inr (map requestFor (filter shouldUseGpt targets), ans)"
      using Cons.IH by blast
    then show ?thesis using True g by simp
  qed
qed

lemma shouldUseGpt_toTarget:
  "shouldUseGpt (toTarget ta) \<longleftrightarrow>
     rowsProp ta > 2 \<or> minLengthProp ta \<ge> 120 \<or> length (collectedPrompt ta) \<ge> 40"
  by (auto simp: shouldUseGpt_def toTarget_def orZero_def)

text \<open>
  C7: with a responder configured, \<open>buildLongFormAnswers\<close> sends a request for exactly
  those visible, enabled textareas that have more than two rows, or a minimal length of
  at least 120, or a collected prompt of at least 40 characters, in page order. So a
  textarea with one row, a prompt of ten characters and no such minimal length is never
  requested, and one with a minimal length of 150 always is.
\<close>

theorem longForm_requested_iff:
  "(shouldUseGpt (toTarget ta) \<longleftrightarrow>
      rowsProp ta > 2 \<or> minLengthProp ta \<ge> 120 \<or> length (collectedPrompt ta) \<ge> 40)
   \<and> (\<exists>ans. buildLongFormAnswers (Some responder) tas
              = Inr (map (\<lambda>t. requestFor (toTarget t))
                       (filter (\<lambda>t. rowsProp t > 2 \<or> minLengthProp t \<ge> 120
                                     \<or> length (collectedPrompt t) \<ge> 40)
                          (visibleTextareas tas)), ans))
   \<and> (rowsProp ta = 1 \<and> length (collectedPrompt ta) = 10 \<and> minLengthProp ta < 120
        \<longrightarrow> \<not> shouldUseGpt (toTarget ta))
   \<and> (minLengthProp ta = 150 \<longrightarrow> shouldUseGpt (toTarget ta))"
proof (intro conjI)
  show "shouldUseGpt (toTarget ta) \<longleftrightarrow>
      rowsProp ta > 2 \<or> minLengthProp ta \<ge> 120 \<or> length (collectedPrompt ta) \<ge> 40"
    by (rule shouldUseGpt_toTarget)
  have "map requestFor (filter shouldUseGpt (map toTarget (visibleTextareas tas)))
        = map (\<lambda>t. requestFor (toTarget t))
            (filter (\<lambda>t. rowsProp t > 2 \<or> minLengthProp t \<ge> 120
                          \<or> length (collectedPrompt t) \<ge> 40) (visibleTextareas tas))"
    by (simp add: filter_map comp_def shouldUseGpt_toTarget)
  then show "\<exists>ans. buildLongFormAnswers (Some responder) tas
              = Inr (map (\<lambda>t. requestFor (toTarget t))
                       (filter (\<lambda>t. rowsProp t > 2 \<or> minLengthProp t \<ge> 120
                                     \<or> length (collectedPrompt t) \<ge> 40)
                          (visibleTextareas tas)), ans)"
    using longFormLoop_requests [of responder "map toTarget (visibleTextareas tas)" Map.empty]
    by (simp add: buildLongFormAnswers_def)
  show "rowsProp ta = 1 \<and> length (collectedPrompt ta) = 10 \<and> minLengthProp ta < 120
        \<longrightarrow> \<not> shouldUseGpt (toTarget ta)"
    by (simp add: shouldUseGpt_toTarget)
  show "minLengthProp ta = 150 \<longrightarrow> shouldUseGpt (toTarget ta)"
    by (simp add: shouldUseGpt_toTarget)
qed

theorem longForm_requested_iff_witness:
  "(\<exists>ans. buildLongFormAnswers (Some failingResponder) [shortArea, longArea]
            = Inr ([requestFor (toTarget longArea)], ans))
   \<and> \<not> shouldUseGpt (toTarget shortArea)
   \<and> shouldUseGpt (toTarget longArea)"
proof -
  have "\<not> shouldUseGpt (toTarget shortArea)"
    using longForm_requested_iff [of shortArea failingResponder "[]"]
    by (simp add: shortArea_def)
  moreover have "shouldUseGpt (toTarget longArea)"
    using longForm_requested_iff [of longArea failingResponder "[]"]
    by (simp add: longArea_def)
  moreover have "\<exists>ans. buildLongFormAnswers (Some failingResponder) [shortArea, longArea]
            = Inr ([requestFor (toTarget longArea)], ans)"
    using longForm_requested_iff [of shortArea failingResponder "[shortArea, longArea]"]
    by (simp add: shortArea_def longArea_def visibleTextareas_def)
  ultimately show ?thesis by blast
qed

section \<open>The motion path\<close>

lemma segments_range:
  assumes "0 \<le> u" "u < 1"
  shows "2 \<le> max 1 (mathRound (randomBetween 2 4 u)) \<and> max 1 (mathRound (randomBetween 2 4 u)) \<le> 4"
proof -
  have "2 \<le> mathRound (randomBetween 2 4 u)"
    using assms by (simp add: mathRound_def randomBetween_def le_floor_iff)
  moreover have "mathRound (randomBetween 2 4 u) < 5"
    using assms by (simp add: mathRound_def randomBetween_def floor_less_iff)
  ultimately show ?thesis by simp
qed

lemma movePoints_append: "movePoints (a @ b) = movePoints a @ movePoints b"
  by (induction a rule: movePoints.induct) simp_all

lemma segmentMove_points:
  "length (movePoints (fst (segmentMove rnd vp src dst segments maxOffset index k))) = 1"
  by (simp add: segmentMove_def humanPause_def Let_def)

lemma segmentLoop_points:
  "index \<le> segments + 1 \<Longrightarrow>
   length (movePoints (fst (segmentLoop rnd vp src dst segments maxOffset index k)))
     = nat (segments + 1 - index)"
proof (induction rnd vp src dst segments maxOffset index k rule: segmentLoop.induct)
  case (1 rnd vp src dst segments maxOffset index k)
  show ?case
  proof (cases "index \<le> segments")
    case False
    then show ?thesis using "1.prems" by (subst segmentLoop.simps) simp
  next
    case True
    obtain evs k1 where sm: "segmentMove rnd vp src dst segments maxOffset index k = (evs, k1)"
      by (cases "segmentMove rnd vp src dst segments maxOffset index k")
    obtain rest k2 where sl: "segmentLoop rnd vp src dst segments maxOffset (index + 1) k1 = (rest, k2)"
      by (cases "segmentLoop rnd vp src dst segments maxOffset (index + 1) k1")
    have "length (movePoints evs) = 1"
      using segmentMove_points [of rnd vp src dst segments maxOffset index k] sm by simp
    moreover have "length (movePoints rest) = nat (segments + 1 - (index + 1))"
      using "1.IH" [OF True sm [symmetric] refl] True sl by simp
    ultimately show ?thesis
      using True sm sl by (subst segmentLoop.simps) (simp add: movePoints_append nat_diff_distrib)
  qed
qed

lemma followPath_points:
  assumes "\<forall>k. 0 \<le> rnd k \<and> rnd k < 1"
  shows "\<exists>inter. movePoints (fst (followPath rnd vp src dst k))
                   = inter @ [(clampX vp (fst dst), clampY vp (snd dst))]
                 \<and> 2 \<le> length inter \<and> length inter \<le> 4"
proof -
  let ?seg = "max 1 (mathRound (randomBetween 2 4 (rnd k)))"
  let ?mo = "min 45 (sqrt ((fst dst - fst src)\<^sup>2 + (snd dst - snd src)\<^sup>2) * 0.3)"
  have sr: "2 \<le> ?seg \<and> ?seg \<le> 4" using assms segments_range by blast
  obtain evs k1 where sl: "segmentLoop rnd vp src dst ?seg ?mo 1 (Suc k) = (evs, k1)"
    by (cases "segmentLoop rnd vp src dst ?seg ?mo 1 (Suc k)")
  have "length (movePoints evs) = nat ?seg"
    using segmentLoop_points [of 1 ?seg rnd vp src dst ?mo "Suc k"] sl sr by simp
  then have len: "2 \<le> length (movePoints evs) \<and> length (movePoints evs) \<le> 4"
    using sr by linarith
  have "movePoints (fst (followPath rnd vp src dst k))
          = movePoints evs @ [(clampX vp (fst dst), clampY vp (snd dst))]"
    using sl by (simp add: followPath_def Let_def humanPause_def movePoints_append)
  then show ?thesis using len by blast
qed

lemma clamp_between: "lo \<le> hi \<Longrightarrow> clamp v lo hi = max lo (min hi v)"
  by (simp add: clamp_def max_def min_def)

text \<open>
  C9: on a page with a viewport, and with random numbers in [0, 1), every path of
  \<open>followPath\<close> has two to four intermediate points and then its destination, clamped
  to the viewport. The moves of \<open>moveMouseNaturally\<close> are: the seed move if no position
  was persisted, with \<open>overshoot\<close> one such path to the overshoot point, and one such path
  to the target; the last move is to the clamped target, and the persisted position is
  the clamped target afterwards. For a viewport at least two wide and two high, the
  clamped target is the target with each coordinate brought into the range from 1 to
  the width (the height) less 1: it lies in that range, and it is the target itself when
  the target lies there.
\<close>

theorem moveMouseNaturally_path:
  assumes "\<forall>k. 0 \<le> rnd k \<and> rnd k < 1"
  shows
    "(\<exists>inter. movePoints (fst (followPath rnd vp src dst k))
                 = inter @ [(clampX vp (fst dst), clampY vp (snd dst))]
              \<and> 2 \<le> length inter \<and> length inter \<le> 4)
     \<and> (\<exists>seed detour inter.
           movePoints (fst (moveMouseNaturally rnd (Some vp) target overshoot sim))
             = seed @ detour @ inter @ [(clampX vp (fst target), clampY vp (snd target))]
           \<and> length seed = (if mousePosition sim = None then 1 else 0)
           \<and> (if overshoot then 3 \<le> length detour \<and> length detour \<le> 5 else detour = [])
           \<and> 2 \<le> length inter \<and> length inter \<le> 4)
     \<and> last (movePoints (fst (moveMouseNaturally rnd (Some vp) target overshoot sim)))
         = (clampX vp (fst target), clampY vp (snd target))
     \<and> mousePosition (snd (moveMouseNaturally rnd (Some vp) target overshoot sim))
         = Some (clampX vp (fst target), clampY vp (snd target))
     \<and> (2 \<le> width vp \<and> 2 \<le> height vp \<longrightarrow>
          last (movePoints (fst (moveMouseNaturally rnd (Some vp) target overshoot sim)))
            = (max 1 (min (width vp - 1) (fst target)),
               max 1 (min (height vp - 1) (snd target)))
          \<and> mousePosition (snd (moveMouseNaturally rnd (Some vp) target overshoot sim))
              = Some (max 1 (min (width vp - 1) (fst target)),
                      max 1 (min (height vp - 1) (snd target)))
          \<and> 1 \<le> fst (last (movePoints
                     (fst (moveMouseNaturally rnd (Some vp) target overshoot sim))))
          \<and> fst (last (movePoints
                     (fst (moveMouseNaturally rnd (Some vp) target overshoot sim))))
              \<le> width vp - 1
          \<and> 1 \<le> snd (last (movePoints
                     (fst (moveMouseNaturally rnd (Some vp) target overshoot sim))))
          \<and> snd (last (movePoints
                     (fst (moveMouseNaturally rnd (Some vp) target overshoot sim))))
              \<le> height vp - 1
          \<and> (1 \<le> fst target \<and> fst target \<le> width vp - 1
               \<and> 1 \<le> snd target \<and> snd target \<le> height vp - 1 \<longrightarrow>
              last (movePoints (fst (moveMouseNaturally rnd (Some vp) target overshoot sim)))
                = target))"
proof -
  let ?goal = "(clampX vp (fst target), clampY vp (snd target))"
  obtain start evs0 k0 where sp: "startPosition rnd vp sim = (start, evs0, k0)"
    by (cases "startPosition rnd vp sim")
  have seed: "length (movePoints evs0) = (if mousePosition sim = None then 1 else 0)"
    using sp by (auto simp: startPosition_def Let_def humanPause_def split: option.splits)
  obtain origin evs1 k1 where ov:
    "(if overshoot then overshootPath rnd vp start target k0 else (start, [], k0))
       = (origin, evs1, k1)"
    by (cases "if overshoot then overshootPath rnd vp start target k0 else (start, [], k0)")
  have detour: "if overshoot then 3 \<le> length (movePoints evs1) \<and> length (movePoints evs1) \<le> 5
                else movePoints evs1 = []"
  proof (cases overshoot)
    case False
    then show ?thesis using ov by simp
  next
    case True
    let ?o = "(clampX vp (fst target + randomBetween (- 18) 18 (rnd k0)),
               clampY vp (snd target + randomBetween (- 18) 18 (rnd (Suc k0))))"
    have "evs1 = fst (followPath rnd vp start ?o (Suc (Suc k0)))"
      using ov True by (auto simp: overshootPath_def Let_def split: prod.splits)
    moreover obtain inter where
      "movePoints (fst (followPath rnd vp start ?o (Suc (Suc k0))))
         = inter @ [(clampX vp (fst ?o), clampY vp (snd ?o))]"
      "2 \<le> length inter" "length inter \<le> 4"
      using followPath_points [OF assms] by blast
    ultimately show ?thesis using True by simp
  qed
  obtain evs2 k2 where fp: "followPath rnd vp origin target k1 = (evs2, k2)"
    by (cases "followPath rnd vp origin target k1")
  obtain inter where inter:
    "movePoints evs2 = inter @ [?goal]" "2 \<le> length inter" "length inter \<le> 4"
    using followPath_points [OF assms, of vp origin target k1] fp by auto
  have m: "moveMouseNaturally rnd (Some vp) target overshoot sim
             = (evs0 @ evs1 @ evs2, \<lparr>mousePosition = Some ?goal, nextDraw = k2\<rparr>)"
    using sp ov fp by (simp add: moveMouseNaturally_def Let_def)
  have pts: "movePoints (fst (moveMouseNaturally rnd (Some vp) target overshoot sim))
               = movePoints evs0 @ movePoints evs1 @ inter @ [?goal]"
    using m inter(1) by (simp add: movePoints_append)
  show ?thesis
  proof (intro conjI)
    show "\<exists>inter. movePoints (fst (followPath rnd vp src dst k))
                 = inter @ [(clampX vp (fst dst), clampY vp (snd dst))]
              \<and> 2 \<le> length inter \<and> length inter \<le> 4"
      by (rule followPath_points [OF assms])
    show "\<exists>seed detour inter.
           movePoints (fst (moveMouseNaturally rnd (Some vp) target overshoot sim))
             = seed @ detour @ inter @ [?goal]
           \<and> length seed = (if mousePosition sim = None then 1 else 0)
           \<and> (if overshoot then 3 \<le> length detour \<and> length detour \<le> 5 else detour = [])
           \<and> 2 \<le> length inter \<and> length inter \<le> 4"
      using pts seed detour inter(2,3) by blast
    show "last (movePoints (fst (moveMouseNaturally rnd (Some vp) target overshoot sim))) = ?goal"
      using pts by simp
    show "mousePosition (snd (moveMouseNaturally rnd (Some vp) target overshoot sim)) = Some ?goal"
      using m by simp
    show "2 \<le> width vp \<and> 2 \<le> height vp \<longrightarrow>
          last (movePoints (fst (moveMouseNaturally rnd (Some vp) target overshoot sim)))
            = (max 1 (min (width vp - 1) (fst target)),
               max 1 (min (height vp - 1) (snd target)))
          \<and> mousePosition (snd (moveMouseNaturally rnd (Some vp) target overshoot sim))
              = Some (max 1 (min (width vp - 1) (fst target)),
                      max 1 (min (height vp - 1) (snd target)))
          \<and> 1 \<le> fst (last (movePoints
                     (fst (moveMouseNaturally rnd (Some vp) target overshoot sim))))
          \<and> fst (last (movePoints
                     (fst (moveMouseNaturally rnd (Some vp) target overshoot sim))))
              \<le> width vp - 1
          \<and> 1 \<le> snd (last (movePoints
                     (fst (moveMouseNaturally rnd (Some vp) target overshoot sim))))
          \<and> snd (last (movePoints
                     (fst (moveMouseNaturally rnd (Some vp) target overshoot sim))))
              \<le> height vp - 1
          \<and> (1 \<le> fst target \<and> fst target \<le> width vp - 1
               \<and> 1 \<le> snd target \<and> snd target \<le> height vp - 1 \<longrightarrow>
              last (movePoints (fst (moveMouseNaturally rnd (Some vp) target overshoot sim)))
                = target)"
    proof
      assume vp: "2 \<le> width vp \<and> 2 \<le> height vp"
      have l: "last (movePoints (fst (moveMouseNaturally rnd (Some vp) target overshoot sim)))
                 = ?goal"
        using pts by simp
      have cx: "clampX vp (fst target) = max 1 (min (width vp - 1) (fst target))"
        using vp by (simp add: clampX_def clamp_between)
      have cy: "clampY vp (snd target) = max 1 (min (height vp - 1) (snd target))"
        using vp by (simp add: clampY_def clamp_between)
      show "last (movePoints (fst (moveMouseNaturally rnd (Some vp) target overshoot sim)))
            = (max 1 (min (width vp - 1) (fst target)),
               max 1 (min (height vp - 1) (snd target)))
          \<and> mousePosition (snd (moveMouseNaturally rnd (Some vp) target overshoot sim))
              = Some (max 1 (min (width vp - 1) (fst target)),
                      max 1 (min (height vp - 1) (snd target)))
          \<and> 1 \<le> fst (last (movePoints
                     (fst (moveMouseNaturally rnd (Some vp) target overshoot sim))))
          \<and> fst (last (movePoints
                     (fst (moveMouseNaturally rnd (Some vp) target overshoot sim))))
              \<le> width vp - 1
          \<and> 1 \<le> snd (last (movePoints
                     (fst (moveMouseNaturally rnd (Some vp) target overshoot sim))))
          \<and> snd (last (movePoints
                     (fst (moveMouseNaturally rnd (Some vp) target overshoot sim))))
              \<le> height vp - 1
          \<and> (1 \<le> fst target \<and> fst target \<le> width vp - 1
               \<and> 1 \<le> snd target \<and> snd target \<le> height vp - 1 \<longrightarrow>
              last (movePoints (fst (moveMouseNaturally rnd (Some vp) target overshoot sim)))
                = target)"
        unfolding l using m vp by (auto simp: cx cy max_def min_def prod_eq_iff)
    qed
  qed
qed

theorem moveMouseNaturally_path_witness:
  "(\<forall>k. 0 \<le> halves k \<and> halves k < 1)
   \<and> 2 \<le> width smallViewport \<and> 2 \<le> height smallViewport
   \<and> last (movePoints (fst (moveMouseNaturally halves (Some smallViewport) offTarget True
                              restingSimulator))) = (1279, 1)
   \<and> mousePosition (snd (moveMouseNaturally halves (Some smallViewport) offTarget True
                            restingSimulator)) = Some (1279, 1)
   \<and> last (movePoints (fst (moveMouseNaturally halves (Some smallViewport) (640, 360) False
                              restingSimulator))) = (640, 360)"
proof -
  have h: "\<forall>k. 0 \<le> halves k \<and> halves k < 1" by (simp add: halves_def)
  have v: "2 \<le> width smallViewport \<and> 2 \<le> height smallViewport"
    by (simp add: smallViewport_def)
  note off = moveMouseNaturally_path [OF h, of smallViewport "(0, 0)" "(0, 0)" 0 offTarget
      True restingSimulator, THEN conjunct2, THEN conjunct2, THEN conjunct2, THEN conjunct2,
      THEN mp, OF v]
  note mid = moveMouseNaturally_path [OF h, of smallViewport "(0, 0)" "(0, 0)" 0
      "(640, 360)" False restingSimulator, THEN conjunct2, THEN conjunct2, THEN conjunct2,
      THEN conjunct2, THEN mp, OF v]
  have a: "last (movePoints (fst (moveMouseNaturally halves (Some smallViewport) offTarget True
                              restingSimulator))) = (1279, 1)"
    using off [THEN conjunct1] by (simp add: smallViewport_def offTarget_def)
  have b: "mousePosition (snd (moveMouseNaturally halves (Some smallViewport) offTarget True
                            restingSimulator)) = Some (1279, 1)"
    using off [THEN conjunct2, THEN conjunct1] by (simp add: smallViewport_def offTarget_def)
  have c: "last (movePoints (fst (moveMouseNaturally halves (Some smallViewport) (640, 360)
                              False restingSimulator))) = (640, 360)"
    using mid [THEN conjunct1] by (simp add: smallViewport_def)
  show ?thesis using h v a b c by blast
qed

text \<open>Without a viewport the source moves once, straight to the target as given.\<close>

lemma no_viewport_direct:
  "moveMouseNaturally rnd None target overshoot sim
     = ([MouseMove (fst target) (snd target) None], sim\<lparr>mousePosition := Some target\<rparr>)"
  by (simp add: moveMouseNaturally_def)

section \<open>The step loop\<close>

lemma getActiveSurveyFrame_Some: "\<exists>fr. getActiveSurveyFrame pg = Some fr"
  by (simp add: getActiveSurveyFrame_def Let_def split: option.splits)

lemma stepLoop_never_NoFrame: "runStatus (stepLoop env maxSteps step done) \<noteq> NoFrame"
proof (induction env maxSteps step "done" rule: stepLoop.induct)
  case (1 env maxSteps step dn)
  show ?case
    apply (subst stepLoop.simps)
    using 1
    apply (auto simp: Let_def getActiveSurveyFrame_def split: option.splits)
    done
qed



lemma checkedPasses_snoc:
  "checkedPasses xs \<Longrightarrow> (\<And>k b. a \<noteq> FieldPass k b) \<Longrightarrow> checkedPasses (xs @ [a])"
  unfolding checkedPasses_def
  by (auto simp: nth_append less_Suc_eq)

lemma checkedPasses_pass:
  assumes "checkedPasses ys" and "ys \<noteq> []" and "last ys = CheckCompletion k False"
  shows "checkedPasses (ys @ [FieldPass k b])"
  unfolding checkedPasses_def
proof (intro allI impI, elim conjE)
  fix i k' b'
  assume len: "i < length (ys @ [FieldPass k b])"
    and at: "(ys @ [FieldPass k b]) ! i = FieldPass k' b'"
  show "0 < i \<and> (ys @ [FieldPass k b]) ! (i - 1) = CheckCompletion k' False"
  proof (cases "i < length ys")
    case True
    then have "ys ! i = FieldPass k' b'" using at by (simp add: nth_append)
    then have "0 < i \<and> ys ! (i - 1) = CheckCompletion k' False"
      using assms(1) True unfolding checkedPasses_def by blast
    then show ?thesis using True by (simp add: nth_append)
  next
    case False
    then have i: "i = length ys" using len by simp
    then have kb: "k' = k" "b' = b" using at by simp_all
    have "ys ! (length ys - 1) = CheckCompletion k False"
      using assms(2,3) by (simp add: last_conv_nth)
    then show ?thesis using i kb assms(2) by (simp add: nth_append)
  qed
qed

lemma stepLoop_checkedPasses:
  "checkedPasses done \<Longrightarrow> checkedPasses (actions (stepLoop env maxSteps step done))"
proof (induction env maxSteps step "done" rule: stepLoop.induct)
  case (1 env maxSteps step dn)
  obtain fr where fr: "getActiveSurveyFrame (pageAt env step) = Some fr"
    using getActiveSurveyFrame_Some by blast
  let ?c = "hasCompletedSurvey (bodyText env step fr)"
  have c1: "checkedPasses (dn @ [CheckCompletion step ?c])"
    using "1.prems" by (rule checkedPasses_snoc) simp
  show ?case
  proof (cases "step < maxSteps")
    case False
    then show ?thesis using "1.prems" by (subst stepLoop.simps) simp
  next
    case lt: True
    show ?thesis
    proof (cases ?c)
      case True
      then show ?thesis using lt fr c1 by (subst stepLoop.simps) (simp add: Let_def)
    next
      case nc: False
      have c2: "checkedPasses ((dn @ [CheckCompletion step False]) @ [FieldPass step (answerCurrentStep env step fr)])"
        using c1 nc by (intro checkedPasses_pass) simp_all
      show ?thesis
      proof (cases "answerCurrentStep env step fr")
        case False
        then show ?thesis using lt fr nc c2 by (subst stepLoop.simps) (simp add: Let_def)
      next
        case ia: True
        have c3: "checkedPasses (((dn @ [CheckCompletion step False]) @ [FieldPass step True]) @ [Advance step (advance env step fr)])"
        proof -
          have "checkedPasses ((dn @ [CheckCompletion step False]) @ [FieldPass step True])"
            using c2 ia by simp
          from checkedPasses_snoc [OF this, of "Advance step (advance env step fr)"]
          show ?thesis by simp
        qed
        show ?thesis
        proof (cases "advance env step fr")
          case False
          then show ?thesis using lt fr nc ia c3 by (subst stepLoop.simps) (simp add: Let_def)
        next
          case ad: True
          have c4: "checkedPasses ((((dn @ [CheckCompletion step False]) @ [FieldPass step True]) @ [Advance step True]) @ [WaitForIdle step])"
          proof -
            have "checkedPasses (((dn @ [CheckCompletion step False]) @ [FieldPass step True])
                    @ [Advance step True])"
              using c3 ad by simp
            from checkedPasses_snoc [OF this, of "WaitForIdle step"]
            show ?thesis by simp
          qed
          have "checkedPasses (actions (stepLoop env maxSteps (step + 1) (dn @ [CheckCompletion step False, FieldPass step True, Advance step True, WaitForIdle step])))"
            using "1.IH" [OF lt fr refl refl _ refl refl _ refl refl _] nc ia ad c4 by simp
          then show ?thesis using lt fr nc ia ad by (subst stepLoop.simps) (simp add: Let_def)
        qed
      qed
    qed
  qed
qed

lemma stepLoop_prefix: "\<exists>rest. actions (stepLoop env maxSteps step done) = done @ rest"
proof (induction env maxSteps step "done" rule: stepLoop.induct)
  case (1 env maxSteps step dn)
  obtain fr where fr: "getActiveSurveyFrame (pageAt env step) = Some fr"
    using getActiveSurveyFrame_Some by blast
  show ?case
    apply (subst stepLoop.simps)
    using 1 [OF _ fr refl refl _ refl refl _ refl refl] fr
    apply (auto simp: Let_def)
    done
qed

lemma firstCheck_append: "firstCheck xs = Some c \<Longrightarrow> firstCheck (xs @ ys) = Some c"
  by (induction xs rule: firstCheck.induct) simp_all

lemma firstFieldPass_append:
  "firstFieldPass xs = Some c \<Longrightarrow> firstFieldPass (xs @ ys) = Some c"
  by (induction xs rule: firstFieldPass.induct) simp_all

lemma stepLoop_first_step:
  "stepLoop env maxSteps 0 [] = r \<Longrightarrow>
   (firstCheck (actions r) = Some True \<longrightarrow>
      runStatus r = Completed \<and> stepIndex r = 0 \<and> (\<forall>k b. FieldPass k b \<notin> set (actions r)))
   \<and> (firstFieldPass (actions r) = Some False \<longrightarrow>
        runStatus r = StalledNoInteraction \<and> stepIndex r = 0)
   \<and> (\<forall>fr. 0 < maxSteps \<and> getActiveSurveyFrame (pageAt env 0) = Some fr
            \<and> hasCompletedSurvey (bodyText env 0 fr)
         \<longrightarrow> r = \<lparr>runStatus = Completed, stepIndex = 0, actions = [CheckCompletion 0 True]\<rparr>)
   \<and> (\<forall>fr. 0 < maxSteps \<and> getActiveSurveyFrame (pageAt env 0) = Some fr
            \<and> \<not> hasCompletedSurvey (bodyText env 0 fr) \<and> \<not> answerCurrentStep env 0 fr
         \<longrightarrow> r = \<lparr>runStatus = StalledNoInteraction, stepIndex = 0,
                   actions = [CheckCompletion 0 False, FieldPass 0 False]\<rparr>)"
proof -
  assume r: "stepLoop env maxSteps 0 [] = r"
  obtain fr where fr: "getActiveSurveyFrame (pageAt env 0) = Some fr"
    using getActiveSurveyFrame_Some by blast
  let ?d = "[CheckCompletion 0 False, FieldPass 0 True, Advance 0 True, WaitForIdle 0]"
  obtain rest where rest: "actions (stepLoop env maxSteps 1 ?d) = ?d @ rest"
    using stepLoop_prefix by blast
  have fc: "firstCheck (?d @ rest) = Some False"
    by (rule firstCheck_append) simp
  have ff: "firstFieldPass (?d @ rest) = Some True"
    by (rule firstFieldPass_append) simp
  show ?thesis
    using r [symmetric] fr rest fc ff
    apply (subst (asm) stepLoop.simps)
    apply (simp add: Let_def del: stepLoop.simps split: if_splits)
    done
qed

text \<open>
  C6: in every run, a field pass is preceded immediately by the completion check of its
  step. If the first completion check finds the completion text, the run ends as
  completed on the first step (index 0) without any field pass; if the first field pass
  interacts with nothing, the run ends as stalled-no-interaction on the first step. In
  terms of the environment, for a positive step limit: completion text on the first step
  gives the run of the single check, and an empty first field pass gives the run of the
  check and the pass.
\<close>

theorem completion_checked_first:
  assumes "answerSurvey pageInitialised env maxSteps = Inr r"
  shows
    "(\<forall>i k b. i < length (actions r) \<and> actions r ! i = FieldPass k b
         \<longrightarrow> 0 < i \<and> actions r ! (i - 1) = CheckCompletion k False)
     \<and> (firstCheck (actions r) = Some True \<longrightarrow>
          runStatus r = Completed \<and> stepIndex r = 0
          \<and> (\<forall>k b. FieldPass k b \<notin> set (actions r)))
     \<and> (firstFieldPass (actions r) = Some False \<longrightarrow>
          runStatus r = StalledNoInteraction \<and> stepIndex r = 0)
     \<and> (\<forall>fr. 0 < maxSteps \<and> getActiveSurveyFrame (pageAt env 0) = Some fr
              \<and> hasCompletedSurvey (bodyText env 0 fr)
           \<longrightarrow> r = \<lparr>runStatus = Completed, stepIndex = 0,
                     actions = [CheckCompletion 0 True]\<rparr>)
     \<and> (\<forall>fr. 0 < maxSteps \<and> getActiveSurveyFrame (pageAt env 0) = Some fr
              \<and> \<not> hasCompletedSurvey (bodyText env 0 fr) \<and> \<not> answerCurrentStep env 0 fr
           \<longrightarrow> r = \<lparr>runStatus = StalledNoInteraction, stepIndex = 0,
                     actions = [CheckCompletion 0 False, FieldPass 0 False]\<rparr>)"
proof -
  have r: "stepLoop env maxSteps 0 [] = r"
    using assms by (simp add: answerSurvey_def del: stepLoop.simps split: if_splits)
  have "checkedPasses []" by (simp add: checkedPasses_def)
  then have "checkedPasses (actions r)"
    using stepLoop_checkedPasses [of "[]" env maxSteps 0] r by simp
  then have first: "\<forall>i k b. i < length (actions r) \<and> actions r ! i = FieldPass k b
         \<longrightarrow> 0 < i \<and> actions r ! (i - 1) = CheckCompletion k False"
    by (simp add: checkedPasses_def)
  show ?thesis
    using first stepLoop_first_step [OF r] by blast
qed

theorem completion_checked_first_witness:
  "answerSurvey True doneEnv 35
     = Inr \<lparr>runStatus = Completed, stepIndex = 0, actions = [CheckCompletion 0 True]\<rparr>
   \<and> answerSurvey True emptyEnv 35
     = Inr \<lparr>runStatus = StalledNoInteraction, stepIndex = 0,
            actions = [CheckCompletion 0 False, FieldPass 0 False]\<rparr>"
proof -
  have f: "getActiveSurveyFrame plainPage = Some topFrame" by code_simp
  have c: "hasCompletedSurvey ''Thank you for your time!''" by code_simp
  have n: "\<not> hasCompletedSurvey ''Question 1''" by code_simp
  obtain r1 where r1: "answerSurvey True doneEnv 35 = Inr r1"
    by (simp add: answerSurvey_def del: stepLoop.simps)
  obtain r2 where r2: "answerSurvey True emptyEnv 35 = Inr r2"
    by (simp add: answerSurvey_def del: stepLoop.simps)
  have "r1 = \<lparr>runStatus = Completed, stepIndex = 0, actions = [CheckCompletion 0 True]\<rparr>"
    using completion_checked_first [OF r1] f c by (simp add: doneEnv_def)
  moreover have "r2 = \<lparr>runStatus = StalledNoInteraction, stepIndex = 0,
            actions = [CheckCompletion 0 False, FieldPass 0 False]\<rparr>"
    using completion_checked_first [OF r2] f n by (simp add: emptyEnv_def)
  ultimately show ?thesis using r1 r2 by simp
qed

text \<open>
  C10: \<open>getActiveSurveyFrame\<close> always returns a frame: the main frame when no other
  frame's address matches the survey pattern. So no run ends through the branch for a
  missing frame.
\<close>

theorem no_frame_unreachable:
  "getActiveSurveyFrame pg \<noteq> None
   \<and> ((\<forall>fr \<in> set (frames pg).
          \<not> (test True surveyUrl (url fr) \<and> frameId fr \<noteq> frameId (mainFrame pg)))
        \<longrightarrow> getActiveSurveyFrame pg = Some (mainFrame pg))
   \<and> runStatus (stepLoop env maxSteps step done) \<noteq> NoFrame
   \<and> (\<forall>r. answerSurvey pageInitialised env maxSteps = Inr r \<longrightarrow> runStatus r \<noteq> NoFrame)"
proof (intro conjI)
  show "getActiveSurveyFrame pg \<noteq> None"
    using getActiveSurveyFrame_Some [of pg] by auto
  show "(\<forall>fr \<in> set (frames pg).
          \<not> (test True surveyUrl (url fr) \<and> frameId fr \<noteq> frameId (mainFrame pg)))
        \<longrightarrow> getActiveSurveyFrame pg = Some (mainFrame pg)"
    by (auto simp: getActiveSurveyFrame_def Let_def split: option.splits
             dest: find_Some_iff [THEN iffD1])
  show "runStatus (stepLoop env maxSteps step done) \<noteq> NoFrame"
    by (rule stepLoop_never_NoFrame)
  show "\<forall>r. answerSurvey pageInitialised env maxSteps = Inr r \<longrightarrow> runStatus r \<noteq> NoFrame"
    using stepLoop_never_NoFrame
    by (auto simp del: stepLoop.simps simp: answerSurvey_def split: if_splits)
qed

theorem no_frame_unreachable_witness:
  "test True surveyUrl (url topFrame)
   \<and> getActiveSurveyFrame plainPage = Some topFrame
   \<and> getActiveSurveyFrame \<lparr>frames = [topFrame, surveyFrame], mainFrame = topFrame\<rparr>
       = Some surveyFrame"
proof -
  have t: "test True surveyUrl (url topFrame)" by code_simp
  have s: "getActiveSurveyFrame \<lparr>frames = [topFrame, surveyFrame], mainFrame = topFrame\<rparr>
       = Some surveyFrame" by code_simp
  have "getActiveSurveyFrame plainPage = Some topFrame"
    using no_frame_unreachable [of plainPage] by (simp add: plainPage_def)
  then show ?thesis using t s by simp
qed

section \<open>What a match consumes\<close>

lemma startsWith_length: "startsWith ci s p \<Longrightarrow> length p \<le> length s"
  by (induction ci s p rule: startsWith.induct) auto

lemma matchHere_consumes:
  "(rest, cap) \<in> set (matchHere ci r s) \<Longrightarrow> length rest + minLen r \<le> length s"
proof (induction r arbitrary: s rest cap)
  case (Lit l)
  then show ?case by (auto dest: startsWith_length split: if_splits)
next
  case (OneOf ls)
  then obtain l where l: "l \<in> set ls" "startsWith ci s l" "rest = drop (length l) s"
    by auto
  then have m: "Min (length ` set ls) \<le> length l" by simp
  have "length l \<le> length s" using l(2) by (rule startsWith_length)
  then have "length rest + length l \<le> length s" using l(3) by simp
  then have "length rest + Min (length ` set ls) \<le> length s" using m by linarith
  then show ?case using l(1) by auto
next
  case (Many k n)
  then obtain j where j: "n \<le> j" "j \<le> length (takeWhile (inClass k) s)" "rest = drop j s"
    by auto
  have "length (takeWhile (inClass k) s) \<le> length s" by (rule length_takeWhile_le)
  then show ?case using j by simp
next
  case (Seq a b)
  then obtain s1 c1 c2 where
    "(s1, c1) \<in> set (matchHere ci a s)" "(rest, c2) \<in> set (matchHere ci b s1)"
    by auto
  then have "length s1 + minLen a \<le> length s" "length rest + minLen b \<le> length s1"
    using Seq.IH by blast+
  then show ?case by simp
next
  case (Alt a b)
  then show ?case by (fastforce simp: min_def)
next
  case (Opt a)
  then show ?case by fastforce
next
  case (Group a)
  then show ?case by fastforce
qed

lemma quotePattern_consumes:
  "(rest, cap) \<in> set (matchHere False quotePattern s) \<Longrightarrow> length rest + 4 \<le> length s"
  using matchHere_consumes [of rest cap False quotePattern s]
  by (simp add: quotePattern_def quoteChar_def)

section \<open>The specification's prompts\<close>

lemma detect_attentionPrompt:
  "detectAttentionInstruction attentionPrompt
     = Some \<lparr>labelTargets = [''blue'', ''attention''], indexTargets = [],
             preferredKeywords = [''attention'', ''paying attention'',
                                  ''i am paying attention'', ''human'', ''quality'',
                                  ''instruction''],
             typedValue = None\<rparr>"
  by code_simp

lemma detect_thirdPrompt: "detectAttentionInstruction thirdPrompt = None"
  by code_simp

lemma detect_politeThirdPrompt:
  "detectAttentionInstruction politeThirdPrompt
     = Some \<lparr>labelTargets = [], indexTargets = [3], preferredKeywords = [],
             typedValue = None\<rparr>"
  by code_simp

lemma detect_bananaPrompt: "detectAttentionInstruction bananaPrompt = None"
  by code_simp

lemma detect_quotedBananaPrompt:
  "detectAttentionInstruction quotedBananaPrompt
     = Some \<lparr>labelTargets = [], indexTargets = [], preferredKeywords = [],
             typedValue = Some ''banana''\<rparr>"
  by code_simp

lemma colourRadios_label:
  "radioLabelStage (detectAttentionInstruction attentionPrompt) colourRadios
     = Some (field 2 attentionPrompt ''Blue'')"
  by code_simp

text \<open>
  C2, as the specification states it, fails: for the prompt
  "Please select 'Blue' to verify you are paying attention" the label targets are not
  the set of "blue" alone, since the word "attention" of the prompt is in the parser's
  list of explicit phrases and becomes a label target too.
\<close>

theorem blue_counterexample:
  "set (labelTargetsOf (detectAttentionInstruction attentionPrompt)) \<noteq> {''blue''}"
  by (simp add: detect_attentionPrompt labelTargetsOf_def)

text \<open>
  C2, amended: for that prompt the label targets are "blue" and then "attention", and for
  the radio group Red, Green, Blue, Yellow the resolution selects Blue, whatever the
  answer bank holds and whatever the random number is.
\<close>

theorem blue_selected:
  "labelTargetsOf (detectAttentionInstruction attentionPrompt) = [''blue'', ''attention'']
   \<and> resolveRadio colourRadios bank random = Some (field 2 attentionPrompt ''Blue'')"
proof -
  have q: "(case colourRadios of [] \<Rightarrow> [] | g # _ \<Rightarrow> getQuestionText g) = attentionPrompt"
    by (simp add: colourRadios_def field_def)
  have ne: "attentionPrompt \<noteq> []" by (simp add: attentionPrompt_def)
  have "resolveRadio colourRadios bank random = Some (field 2 attentionPrompt ''Blue'')"
    unfolding resolveRadio_def q
    by (simp add: ne colourRadios_label radioKeywordStage_def radioIndexStage_def
                  radioBankStage_def Let_def split: option.splits)
  then show ?thesis by (simp add: detect_attentionPrompt labelTargetsOf_def)
qed

theorem blue_selected_witness:
  "findEntry [redEntry] (field 0 attentionPrompt ''Red'') = Some redEntry
   \<and> resolveRadio colourRadios [redEntry] 0 = Some (field 2 attentionPrompt ''Blue'')"
proof -
  have "findEntry [redEntry] (field 0 attentionPrompt ''Red'') = Some redEntry"
    by code_simp
  then show ?thesis using blue_selected [of "[redEntry]" 0] by simp
qed

text \<open>
  C3, as the specification states it, fails: the prompt "Choose the third option" has
  neither attention language nor a polite instruction, so the parser returns no directive
  at all, and the resolution (here with an empty bank and the random number 0) selects A.
\<close>

theorem third_counterexample:
  "detectAttentionInstruction thirdPrompt = None
   \<and> indexTargetsOf (detectAttentionInstruction thirdPrompt) \<noteq> [3]
   \<and> resolveRadio (letterRadios thirdPrompt) [] 0 = Some (field 0 thirdPrompt ''A'')"
proof -
  have q: "(case letterRadios thirdPrompt of [] \<Rightarrow> [] | g # _ \<Rightarrow> getQuestionText g) = thirdPrompt"
    by (simp add: letterRadios_def field_def)
  have "resolveRadio (letterRadios thirdPrompt) [] 0 = Some (field 0 thirdPrompt ''A'')"
    unfolding resolveRadio_def q
    by (simp add: detect_thirdPrompt radioLabelStage_def radioKeywordStage_def
                  radioIndexStage_def radioBankStage_def labelTargetsOf_def
                  preferredKeywordsOf_def indexTargetsOf_def findEntry_def chooseRandom_def
                  item_at_def letterRadios_def Let_def)
  then show ?thesis by (simp add: detect_thirdPrompt indexTargetsOf_def)
qed

lemma findEach_find:
  "findEach f None xs = (case find (\<lambda>x. f x \<noteq> None) xs of None \<Rightarrow> None | Some x \<Rightarrow> f x)"
  by (induction xs) (auto split: option.splits)

text \<open>
  C3, amended: for "Choose the third option" the parser returns no directive, and the
  resolution is left to the answer bank and the random choice: for every bank, if an
  entry is found for the question, the first of its answers that matches the label of
  some option selects the first option it matches, and otherwise, or when no entry is
  found, the option is the random one. With the polite instruction in the prompt,
  "Please choose the third option", the index targets are 3 alone and the resolution
  selects the third option, C, whatever the bank and the random number.
\<close>

theorem third_selected_when_polite:
  "detectAttentionInstruction thirdPrompt = None
   \<and> resolveRadio (letterRadios thirdPrompt) bank random
       = (case findEntry bank (field 0 thirdPrompt ''A'') of
            None \<Rightarrow> chooseRandom (letterRadios thirdPrompt) random
          | Some entry \<Rightarrow>
              (case find (\<lambda>answer. list_ex (\<lambda>candidate.
                            labelHit (normalize (getLabelText candidate)) (normalized answer))
                          (letterRadios thirdPrompt)) (answers entry) of
                 None \<Rightarrow> chooseRandom (letterRadios thirdPrompt) random
               | Some answer \<Rightarrow>
                   find (\<lambda>candidate.
                          labelHit (normalize (getLabelText candidate)) (normalized answer))
                     (letterRadios thirdPrompt)))
   \<and> indexTargetsOf (detectAttentionInstruction politeThirdPrompt) = [3]
   \<and> resolveRadio (letterRadios politeThirdPrompt) bank random
       = Some (field 2 politeThirdPrompt ''C'')"
proof -
  let ?grp = "letterRadios thirdPrompt"
  let ?hit = "\<lambda>answer. find (\<lambda>candidate.
                 labelHit (normalize (getLabelText candidate)) (normalized answer)) ?grp"
  have q: "\<And>p. (case letterRadios p of [] \<Rightarrow> [] | g # _ \<Rightarrow> getQuestionText g) = p"
    by (simp add: letterRadios_def field_def)
  have ne: "politeThirdPrompt \<noteq> []" by (simp add: politeThirdPrompt_def)
  have e: "\<And>p. (case letterRadios p of [] \<Rightarrow> None | g # _ \<Rightarrow> findEntry bank g)
                 = findEntry bank (field 0 p ''A'')"
    by (simp add: letterRadios_def)
  let ?any = "\<lambda>answer. list_ex (\<lambda>candidate.
                 labelHit (normalize (getLabelText candidate)) (normalized answer)) ?grp"
  have pe: "(\<lambda>answer. ?hit answer \<noteq> None) = ?any"
    by (rule ext) (auto simp: find_None_iff list_ex_iff simp del: not_None_eq)
  have stages: "resolveRadio ?grp bank random
       = (case radioBankStage (findEntry bank (field 0 thirdPrompt ''A'')) ?grp None of
            None \<Rightarrow> chooseRandom ?grp random
          | Some opt \<Rightarrow> Some opt)"
    unfolding resolveRadio_def q e
    by (simp add: detect_thirdPrompt radioLabelStage_def radioKeywordStage_def
                  radioIndexStage_def labelTargetsOf_def preferredKeywordsOf_def
                  indexTargetsOf_def Let_def split: option.splits)
  have bankStage: "\<And>entry. radioBankStage (Some entry) ?grp None
       = (case find ?any (answers entry) of None \<Rightarrow> None | Some answer \<Rightarrow> ?hit answer)"
    unfolding radioBankStage_def findEach_find pe by simp
  have a: "resolveRadio ?grp bank random
       = (case findEntry bank (field 0 thirdPrompt ''A'') of
            None \<Rightarrow> chooseRandom ?grp random
          | Some entry \<Rightarrow>
              (case find ?any (answers entry) of
                 None \<Rightarrow> chooseRandom ?grp random
               | Some answer \<Rightarrow> ?hit answer))"
  proof (cases "findEntry bank (field 0 thirdPrompt ''A'')")
    case None
    then show ?thesis using stages by (simp add: radioBankStage_def)
  next
    case (Some entry)
    note entry = this
    show ?thesis
    proof (cases "find ?any (answers entry)")
      case None
      then show ?thesis using stages entry bankStage [of entry] by simp
    next
      case (Some answer)
      then have "?any answer" by (auto dest: find_Some_iff [THEN iffD1])
      then obtain opt where "?hit answer = Some opt"
        by (auto simp: list_ex_iff find_None_iff simp del: not_None_eq
                 intro: option.exhaust [of "?hit answer"])
      then show ?thesis using stages entry bankStage [of entry] Some by simp
    qed
  qed
  have b: "resolveRadio (letterRadios politeThirdPrompt) bank random
       = Some (field 2 politeThirdPrompt ''C'')"
    unfolding resolveRadio_def q
    by (simp add: ne detect_politeThirdPrompt radioLabelStage_def radioKeywordStage_def
                  radioIndexStage_def radioBankStage_def labelTargetsOf_def
                  preferredKeywordsOf_def indexTargetsOf_def item_at_def letterRadios_def
                  Let_def split: option.splits)
  show ?thesis
    using a b by (simp add: detect_thirdPrompt detect_politeThirdPrompt indexTargetsOf_def)
qed

theorem third_selected_when_polite_witness:
  "resolveRadio (letterRadios politeThirdPrompt) [secondEntry] (1 / 2)
     = Some (field 2 politeThirdPrompt ''C'')
   \<and> findEntry [secondEntry] (field 0 thirdPrompt ''A'') = Some secondEntry
   \<and> resolveRadio (letterRadios thirdPrompt) [secondEntry] (1 / 2)
       = Some (field 1 thirdPrompt ''B'')
   \<and> resolveRadio (letterRadios thirdPrompt) [] (1 / 2) = Some (field 2 thirdPrompt ''C'')
   \<and> resolveRadio (letterRadios thirdPrompt) [] 0 = Some (field 0 thirdPrompt ''A'')"
proof -
  have f: "findEntry [secondEntry] (field 0 thirdPrompt ''A'') = Some secondEntry"
    by code_simp
  have n: "findEntry [] (field 0 thirdPrompt ''A'') = None"
    by (simp add: findEntry_def)
  have pick: "find (\<lambda>answer. list_ex (\<lambda>candidate.
                  labelHit (normalize (getLabelText candidate)) (normalized answer))
                (letterRadios thirdPrompt)) (answers secondEntry)
              = Some \<lparr>raw = ''B'', normalized = ''b''\<rparr>"
    by code_simp
  have opt: "find (\<lambda>candidate. labelHit (normalize (getLabelText candidate))
                     (normalized \<lparr>raw = ''B'', normalized = ''b''\<rparr>))
               (letterRadios thirdPrompt) = Some (field 1 thirdPrompt ''B'')"
    by code_simp
  have half: "chooseRandom (letterRadios thirdPrompt) (1 / 2) = Some (field 2 thirdPrompt ''C'')"
    by (simp add: chooseRandom_def letterRadios_def item_at_def)
  have zero: "chooseRandom (letterRadios thirdPrompt) 0 = Some (field 0 thirdPrompt ''A'')"
    by (simp add: chooseRandom_def letterRadios_def item_at_def)
  show ?thesis
    using third_selected_when_polite [of "[secondEntry]" "1 / 2"]
          third_selected_when_polite [of "[]" "1 / 2"]
          third_selected_when_polite [of "[]" 0]
          f n pick opt half zero
    by simp
qed

text \<open>
  C4, as the specification states it, fails: for the prompt
  "Type the word banana to confirm you read this" the parser returns no directive, the
  extraction of an unquoted word being gated on attention language or one of the words
  "exactly", "attention", "human"; a field with nothing else to go by is filled with
  "Sample answer".
\<close>

theorem banana_counterexample:
  "detectAttentionInstruction bananaPrompt = None
   \<and> typedValueOf (detectAttentionInstruction bananaPrompt) \<noteq> Some ''banana''
   \<and> shortTextSample (field 0 bananaPrompt []) [] = ''Sample answer''"
  by (simp add: detect_bananaPrompt typedValueOf_def shortTextSample_def field_def
                findEntry_def firstRaw_def orElse_def Let_def)

text \<open>
  C4, amended: for that prompt there is no directive, and a short-text field with it is
  filled with the bank's first answer, else its placeholder, its aria-label, its name,
  else "Sample answer". When the prompt quotes the word, \<open>Type the word "banana" to
  confirm you read this\<close>, the typed value is exactly "banana" and the field is filled
  with exactly "banana".
\<close>

theorem banana_typed_when_quoted:
  "detectAttentionInstruction bananaPrompt = None
   \<and> (getQuestionText input = bananaPrompt \<longrightarrow>
        shortTextSample input bank
          = (case orElse (firstRaw (findEntry bank input))
                    (orElse (Some (placeholder input))
                       (orElse (ariaLabel input) (nameAttr input))) of
               None \<Rightarrow> ''Sample answer''
             | Some v \<Rightarrow> if v = [] then ''Sample answer'' else v))
   \<and> typedValueOf (detectAttentionInstruction quotedBananaPrompt) = Some ''banana''
   \<and> (getQuestionText input = quotedBananaPrompt \<longrightarrow> shortTextSample input bank = ''banana'')"
  by (simp add: detect_bananaPrompt detect_quotedBananaPrompt typedValueOf_def
                shortTextSample_def orElse_def Let_def)

theorem banana_typed_when_quoted_witness:
  "getQuestionText (field 0 quotedBananaPrompt []) = quotedBananaPrompt
   \<and> shortTextSample (field 0 quotedBananaPrompt []) [] = ''banana''
   \<and> getQuestionText (field 0 bananaPrompt []) = bananaPrompt
   \<and> shortTextSample (field 0 bananaPrompt []) [] = ''Sample answer''"
  using banana_typed_when_quoted [of "field 0 quotedBananaPrompt []" "[]"]
        banana_typed_when_quoted [of "field 0 bananaPrompt []" "[]"]
  by (simp add: field_def findEntry_def firstRaw_def orElse_def)

text \<open>
  C1: the code at the select whose prompt asks for Blue. The attention stages choose Blue;
  with a bank entry for the question that answers Red the select is set to Red, and with
  one whose answer matches no option the choice of the attention stages is lost and the
  first usable option, Red, is set. Only with no bank entry does Blue stand.
\<close>

theorem select_bank_overrides_attention:
  "selectAttentionChoice colourSelect = Some (colourOption ''Blue'')
   \<and> findEntry [redEntry] colourSelect = Some redEntry
   \<and> resolveSelect colourSelect [redEntry] = Some (colourOption ''Red'')
   \<and> resolveSelect colourSelect [purpleEntry] = Some (colourOption ''Red'')
   \<and> resolveSelect colourSelect [] = Some (colourOption ''Blue'')"
  by code_simp

end
